theory Spec2Isabelle
  imports Main
begin

unbundle bit_operations_syntax

section \<open>JavaScript values used by the program\<close>

text \<open>
  Strings are \<open>string\<close> (lists of 8-bit characters); the white space of
  \<open>String.prototype.trim\<close> and of the regular-expression class \<open>\s\<close> is taken over
  that alphabet: tab, line feed, vertical tab, form feed, carriage return, space.
  The line terminators that \<open>.\<close> of a regular expression refuses are line feed and
  carriage return.
\<close>

definition isWhiteSpace :: "char \<Rightarrow> bool" where
  "isWhiteSpace c = (c \<in> set [CHR 0x09, CHR 0x0A, CHR 0x0B, CHR 0x0C, CHR 0x0D, CHR 0x20])"

definition isLineTerminator :: "char \<Rightarrow> bool" where
  "isLineTerminator c = (c \<in> set [CHR 0x0A, CHR 0x0D])"

definition trim :: "string \<Rightarrow> string" where
  "trim s = rev (dropWhile isWhiteSpace (rev (dropWhile isWhiteSpace s)))"

definition startsWith :: "string \<Rightarrow> string \<Rightarrow> bool" where
  "startsWith s p = (take (length p) s = p)"

fun includes_str :: "string \<Rightarrow> string \<Rightarrow> bool" where
  "includes_str [] p = (p = [])"
| "includes_str (c # cs) p = (startsWith (c # cs) p \<or> includes_str cs p)"

text \<open>\<open>s.split(sep)\<close> for a one-character separator: never an empty list.\<close>

fun split_chr :: "char \<Rightarrow> string \<Rightarrow> string list" where
  "split_chr sep [] = [[]]"
| "split_chr sep (c # cs) =
     (if c = sep then [] # split_chr sep cs
      else (case split_chr sep cs of
              [] \<Rightarrow> [[c]]
            | w # ws \<Rightarrow> (c # w) # ws))"

text \<open>\<open>s.split(sep, limit)\<close>: the first \<open>limit\<close> pieces.\<close>

definition split_limit :: "char \<Rightarrow> nat \<Rightarrow> string \<Rightarrow> string list" where
  "split_limit sep limit s = take limit (split_chr sep s)"

text \<open>
  A thrown value. \<open>Obj m c\<close> is a non-null object whose \<open>message\<close> property is the
  string \<open>m\<close> when \<open>m\<close> is \<open>Some\<close> (any other type otherwise) and whose \<open>code\<close>
  property is the string \<open>c\<close> when \<open>c\<close> is \<open>Some\<close>; \<open>new Error(msg)\<close> is
  \<open>Obj (Some msg) None\<close>, and a file-system error carries its code
  (\<open>ENOENT\<close>, \<open>EACCES\<close>, ...). \<open>Null\<close> is \<open>null\<close>, \<open>Prim\<close> any value that is
  not an object.
\<close>

datatype thrown = Obj "string option" "string option" | Null | Prim string

definition newError :: "string \<Rightarrow> thrown" where
  "newError msg = Obj (Some msg) None"

section \<open>Effects: a log of the calls made, and exceptions as values\<close>

datatype FileType = Blob | Tree | Commit

datatype FileMode = M100644 | M100755 | M040000 | M160000 | M120000

text \<open>The three states of the optional, nullable property \<open>sha?: string | null\<close>.\<close>

datatype sha_field = ShaAbsent | ShaNull | ShaValue string

record File =
  f_path :: string
  f_content :: "string option"
  f_sha :: sha_field
  f_mode :: FileMode
  f_type :: "FileType option"

text \<open>
  Every call that leaves the program is an event: the two file-system reads, the
  GraphQL queries and the REST calls, each with the arguments the program passes.
  An omitted (\<open>undefined\<close>) argument is \<open>None\<close>.
\<close>

datatype event =
    EStat string
  | EReadFile string
  | EGetTree string string string
  | EGetBranch string string string
  | EGetDefaultBranch string string
  | ECreateTree string string "File list" "string option"
  | ECreateCommit string string string string "string list option"
  | EUpdateRef string string string string "bool option"
  | ECreateRef string string string string

type_synonym 'a io = "event list \<times> (thrown + 'a)"

definition ret :: "'a \<Rightarrow> 'a io" where
  "ret x = ([], Inr x)"

definition throw :: "thrown \<Rightarrow> 'a io" where
  "throw e = ([], Inl e)"

definition bind :: "'a io \<Rightarrow> ('a \<Rightarrow> 'b io) \<Rightarrow> 'b io" where
  "bind m f =
     (case m of
        (l, Inl e) \<Rightarrow> (l, Inl e)
      | (l, Inr a) \<Rightarrow> (case f a of (l', r) \<Rightarrow> (l @ l', r)))"

text \<open>\<open>try { m } catch (e) { h e }\<close>\<close>

definition catch :: "'a io \<Rightarrow> (thrown \<Rightarrow> 'a io) \<Rightarrow> 'a io" where
  "catch m h =
     (case m of
        (l, Inl e) \<Rightarrow> (case h e of (l', r) \<Rightarrow> (l @ l', r))
      | (l, Inr a) \<Rightarrow> (l, Inr a))"

definition isRemote :: "event \<Rightarrow> bool" where
  "isRemote ev = (case ev of EStat _ \<Rightarrow> False | EReadFile _ \<Rightarrow> False | _ \<Rightarrow> True)"

section \<open>File modes\<close>

text \<open>
  \<open>getFileMode\<close> of the current source. The octal constants:
  \<open>0o170000 = 61440\<close>, \<open>0o777 = 511\<close>, \<open>0o111 = 73\<close>, \<open>0o100000 = 32768\<close>,
  \<open>0o040000 = 16384\<close>, \<open>0o160000 = 57344\<close>, \<open>0o120000 = 40960\<close>.
  A stat mode is a non-negative integer, on which \<open>&\<close> with these constants is the
  bitwise conjunction of naturals.
\<close>

definition getFileMode :: "nat \<Rightarrow> FileMode" where
  "getFileMode mode =
     (let type = mode AND 61440;
          perm = mode AND 511
      in if type = 32768 then (if perm AND 73 \<noteq> 0 then M100755 else M100644)
         else if type = 16384 then M040000
         else if type = 57344 then M160000
         else if type = 40960 then M120000
         else M100644)"

text \<open>
  \<open>getFileMode\<close> of \<open>main.ts\<close>: the first case compares the masked value with
  \<open>0o100755 = 33261\<close>.
\<close>

definition getFileMode_main :: "nat \<Rightarrow> FileMode" where
  "getFileMode_main mode =
     (let type = mode AND 61440
      in if type = 33261 then M100755
         else if type = 16384 then M040000
         else if type = 57344 then M160000
         else if type = 40960 then M120000
         else M100644)"

fun getFileType :: "FileMode \<Rightarrow> FileType" where
  "getFileType M100644 = Blob"
| "getFileType M100755 = Blob"
| "getFileType M040000 = Tree"
| "getFileType M160000 = Commit"
| "getFileType M120000 = Blob"

section \<open>Requests, results and the collaborators\<close>

record Options =
  owner :: string
  repo :: string
  branch :: string
  message :: string
  rootDir :: "string option"
  empty :: "bool option"
  files :: "string list option"
  baseSHA :: "string option"
  baseBranch :: "string option"
  noParent :: "bool option"
  deletedFiles :: "string list option"
  deleteIfNotExist :: "bool option"
  forcePush :: "bool option"

text \<open>The \<open>Options\<close> of \<open>main.ts\<close>: \<open>parent\<close> and \<open>directory\<close> instead of
  \<open>baseSHA\<close>, \<open>baseBranch\<close> and \<open>rootDir\<close>.\<close>

record Options_main =
  owner_m :: string
  repo_m :: string
  branch_m :: string
  message_m :: string
  empty_m :: "bool option"
  files_m :: "string list option"
  parent_m :: "string option"
  noParent_m :: "bool option"
  directory_m :: "string option"
  deletedFiles_m :: "string list option"
  deleteIfNotExist_m :: "bool option"
  forcePush_m :: "bool option"

text \<open>\<open>Result\<close> is \<open>{commit: {sha}}\<close>; \<open>Ref\<close> is \<open>{target: {oid, tree: {oid}}}\<close>, and in
  \<open>main.ts\<close> it has a \<open>name\<close> as well.\<close>

record Result =
  commit_sha :: string

record Ref =
  oid :: string
  tree_oid :: string

record Ref_main = Ref +
  name :: string

text \<open>What \<open>stat\<close> resolves to: the \<open>mode\<close> number and the two predicates the program calls.\<close>

record Stats =
  mode :: nat
  isDirectory :: bool
  isFile :: bool

text \<open>
  The collaborators are parameters of the model: the file system (\<open>stat\<close>,
  \<open>readFile\<close> with encoding utf8), the three functions of \<open>node:path\<close> the program
  calls, the GraphQL queries and the REST calls of the API client. Each answers
  with a value or rejects with a thrown value. Within one invocation the program
  sends each query and each REST call at most once, so an answer that depends on
  the arguments only loses nothing. The two queries of \<open>main.ts\<close> select the
  \<open>name\<close> of the ref as well and have their own answers.
\<close>

record world =
  fs_stat :: "string \<Rightarrow> thrown + Stats"
  fs_readFile :: "string \<Rightarrow> thrown + string"
  path_join :: "string \<Rightarrow> string \<Rightarrow> string"
  path_isAbsolute :: "string \<Rightarrow> bool"
  path_resolve :: "string \<Rightarrow> string \<Rightarrow> string"
  q_tree :: "string \<Rightarrow> string \<Rightarrow> string \<Rightarrow> thrown + string"
  q_ref :: "string \<Rightarrow> string \<Rightarrow> string \<Rightarrow> thrown + Ref option"
  q_defaultBranchRef :: "string \<Rightarrow> string \<Rightarrow> thrown + Ref"
  q_ref_main :: "string \<Rightarrow> string \<Rightarrow> string \<Rightarrow> thrown + Ref_main option"
  q_defaultBranchRef_main :: "string \<Rightarrow> string \<Rightarrow> thrown + Ref_main"
  git_createTree :: "string \<Rightarrow> string \<Rightarrow> File list \<Rightarrow> string option \<Rightarrow> thrown + string"
  git_createCommit ::
    "string \<Rightarrow> string \<Rightarrow> string \<Rightarrow> string \<Rightarrow> string list option \<Rightarrow> thrown + string"
  git_updateRef :: "string \<Rightarrow> string \<Rightarrow> string \<Rightarrow> string \<Rightarrow> bool option \<Rightarrow> thrown + string"
  git_createRef :: "string \<Rightarrow> string \<Rightarrow> string \<Rightarrow> string \<Rightarrow> thrown + string"

text \<open>Truthiness of the optional properties: \<open>undefined\<close>, \<open>false\<close>, the empty string
  and a length of 0 are falsy.\<close>

definition flag :: "bool option \<Rightarrow> bool" where
  "flag b = (case b of None \<Rightarrow> False | Some v \<Rightarrow> v)"

definition truthy :: "string \<Rightarrow> bool" where
  "truthy s = (s \<noteq> [])"

definition truthy_opt :: "string option \<Rightarrow> bool" where
  "truthy_opt s = (case s of None \<Rightarrow> False | Some v \<Rightarrow> truthy v)"

text \<open>\<open>xs?.length\<close> as a condition.\<close>

definition hasLength :: "string list option \<Rightarrow> bool" where
  "hasLength xs = (case xs of None \<Rightarrow> False | Some l \<Rightarrow> length l \<noteq> 0)"

text \<open>\<open>xs || []\<close> and \<open>s || ""\<close>.\<close>

definition orEmptyList :: "string list option \<Rightarrow> string list" where
  "orEmptyList xs = (case xs of None \<Rightarrow> [] | Some l \<Rightarrow> l)"

definition orEmptyString :: "string option \<Rightarrow> string" where
  "orEmptyString s = (case s of None \<Rightarrow> [] | Some v \<Rightarrow> v)"

text \<open>The calls themselves: each is logged with its arguments, then answered.\<close>

definition stat :: "world \<Rightarrow> string \<Rightarrow> Stats io" where
  "stat w p = ([EStat p], fs_stat w p)"

definition readFile :: "world \<Rightarrow> string \<Rightarrow> string io" where
  "readFile w p = ([EReadFile p], fs_readFile w p)"

definition createTree_call ::
  "world \<Rightarrow> string \<Rightarrow> string \<Rightarrow> File list \<Rightarrow> string option \<Rightarrow> string io" where
  "createTree_call w ow rp tree base_tree =
     ([ECreateTree ow rp tree base_tree], git_createTree w ow rp tree base_tree)"

definition createCommit_call ::
  "world \<Rightarrow> string \<Rightarrow> string \<Rightarrow> string \<Rightarrow> string \<Rightarrow> string list option \<Rightarrow> string io" where
  "createCommit_call w ow rp msg tree parents =
     ([ECreateCommit ow rp msg tree parents], git_createCommit w ow rp msg tree parents)"

definition updateRef_call ::
  "world \<Rightarrow> string \<Rightarrow> string \<Rightarrow> string \<Rightarrow> string \<Rightarrow> bool option \<Rightarrow> string io" where
  "updateRef_call w ow rp rf sh force =
     ([EUpdateRef ow rp rf sh force], git_updateRef w ow rp rf sh force)"

definition createRef_call ::
  "world \<Rightarrow> string \<Rightarrow> string \<Rightarrow> string \<Rightarrow> string \<Rightarrow> string io" where
  "createRef_call w ow rp rf sh =
     ([ECreateRef ow rp rf sh], git_createRef w ow rp rf sh)"

section \<open>The current source\<close>

text \<open>
  The calls of \<open>logger.info\<close> are left out: they write to the console (or to the
  caller's logger) and nothing the program computes depends on them.
\<close>

subsection \<open>GraphQL queries\<close>

definition getTree :: "world \<Rightarrow> string \<Rightarrow> string \<Rightarrow> string \<Rightarrow> string io" where
  "getTree w ow rp oi = ([EGetTree ow rp oi], q_tree w ow rp oi)"

definition getBranch :: "world \<Rightarrow> string \<Rightarrow> string \<Rightarrow> string \<Rightarrow> Ref option io" where
  "getBranch w ow rp br = ([EGetBranch ow rp br], q_ref w ow rp br)"

definition getDefaultBranch :: "world \<Rightarrow> Options \<Rightarrow> Ref io" where
  "getDefaultBranch w opts =
     ([EGetDefaultBranch (owner opts) (repo opts)], q_defaultBranchRef w (owner opts) (repo opts))"

subsection \<open>Base branch\<close>

definition getBaseBranch :: "world \<Rightarrow> Options \<Rightarrow> Ref io" where
  "getBaseBranch w opts =
     (if truthy_opt (baseSHA opts) then
        bind (getTree w (owner opts) (repo opts) (orEmptyString (baseSHA opts)))
          (\<lambda>t. ret \<lparr>oid = orEmptyString (baseSHA opts), tree_oid = t\<rparr>)
      else if truthy_opt (baseBranch opts) then
        bind (getBranch w (owner opts) (repo opts) (orEmptyString (baseBranch opts)))
          (\<lambda>b. case b of
                  None \<Rightarrow> throw (newError (''Branch '' @ branch opts @ '' does not exist in ''
                                            @ owner opts @ ''/'' @ repo opts))
                | Some r \<Rightarrow> ret r)
      else
        bind (getBranch w (owner opts) (repo opts) (branch opts))
          (\<lambda>b. case b of
                  Some r \<Rightarrow> ret r
                | None \<Rightarrow> getDefaultBranch w opts))"

subsection \<open>Submodules: the commit a git directory points at\<close>

text \<open>The loop of \<open>resolvePackedRef\<close> over the lines of \<open>packed-refs\<close>. The pattern
  \<open>[sha, packedRef]\<close> binds the first two pieces of the line; with one piece only,
  \<open>packedRef\<close> is \<open>undefined\<close> and equals no string.\<close>

fun scanPackedRefs :: "string \<Rightarrow> string list \<Rightarrow> string io" where
  "scanPackedRefs rf [] = throw (newError (''ref '' @ rf @ '' not found in packed-refs''))"
| "scanPackedRefs rf (line # rest) =
     (if startsWith line ''#'' \<or> trim line = [] then scanPackedRefs rf rest
      else (case split_limit (CHR '' '') 2 line of
              sha # packedRef # _ \<Rightarrow> if packedRef = rf then ret sha else scanPackedRefs rf rest
            | _ \<Rightarrow> scanPackedRefs rf rest))"

definition resolvePackedRef :: "world \<Rightarrow> string \<Rightarrow> string \<Rightarrow> string io" where
  "resolvePackedRef w gitDir rf =
     bind (readFile w (path_join w gitDir ''packed-refs''))
       (\<lambda>content. scanPackedRefs rf (split_chr (CHR 0x0A) content))"

definition resolveGitHEAD :: "world \<Rightarrow> string \<Rightarrow> string io" where
  "resolveGitHEAD w gitDir =
     bind (readFile w (path_join w gitDir ''HEAD''))
       (\<lambda>raw. let content = trim raw
              in if \<not> startsWith content ''ref: '' then ret content
                 else let rf = drop (length ''ref: '') content;
                          refPath = path_join w gitDir rf
                      in catch (bind (readFile w refPath) (\<lambda>v. ret (trim v)))
                               (\<lambda>_. resolvePackedRef w gitDir rf))"

text \<open>
  \<open>content.match(/^gitdir:\s*(.+)$/)\<close>, the captured group or \<open>None\<close>. After the
  literal prefix, \<open>\s*\<close> is greedy and gives back: the group is the rest after the
  longest run of leading white space that leaves a non-empty rest; the rest must
  reach the end of the string without a line terminator.
\<close>

definition match_gitdir :: "string \<Rightarrow> string option" where
  "match_gitdir content =
     (if \<not> startsWith content ''gitdir:'' then None
      else let rest = drop (length ''gitdir:'') content;
               r = dropWhile isWhiteSpace rest
           in if r \<noteq> [] then (if list_ex isLineTerminator r then None else Some r)
              else if rest \<noteq> [] \<and> \<not> isLineTerminator (last rest) then Some [last rest]
              else None)"

definition getSubmoduleCommitSHA :: "world \<Rightarrow> string \<Rightarrow> string option io" where
  "getSubmoduleCommitSHA w dirPath =
     (let dotGitPath = path_join w dirPath ''.git''
      in bind (catch (bind (stat w dotGitPath) (\<lambda>stats. ret (isFile stats))) (\<lambda>_. ret False))
           (\<lambda>dotGitIsFile.
              if \<not> dotGitIsFile then ret None
              else bind (readFile w dotGitPath)
                     (\<lambda>raw. case match_gitdir (trim raw) of
                              None \<Rightarrow> ret None
                            | Some m \<Rightarrow>
                                (let gitDir = (if path_isAbsolute w m then m
                                               else path_resolve w dirPath m)
                                 in bind (resolveGitHEAD w gitDir) (\<lambda>sha. ret (Some sha))))))"

subsection \<open>Tree entries\<close>

text \<open>
  The body that both branches of \<open>getFileContentAndMode\<close> share: \<open>stat\<close>, then for a
  directory the submodule test, for anything else \<open>readFile\<close>. (The branches differ
  in the order of \<open>readFile\<close> and the pure \<open>getFileMode\<close> only.)
\<close>

definition statAndRead :: "world \<Rightarrow> string \<Rightarrow> File io" where
  "statAndRead w filePath =
     bind (stat w filePath)
       (\<lambda>stats.
          if isDirectory stats then
            bind (getSubmoduleCommitSHA w filePath)
              (\<lambda>commitSHA. case commitSHA of
                   Some c \<Rightarrow> ret \<lparr>f_path = filePath, f_content = None, f_sha = ShaValue c,
                                  f_mode = M160000, f_type = Some Commit\<rparr>
                 | None \<Rightarrow> ret \<lparr>f_path = filePath, f_content = None, f_sha = ShaAbsent,
                                f_mode = M040000, f_type = Some Tree\<rparr>)
          else
            bind (readFile w filePath)
              (\<lambda>content. let m = getFileMode (mode stats)
                          in ret \<lparr>f_path = filePath, f_content = Some content, f_sha = ShaAbsent,
                                  f_mode = m, f_type = Some (getFileType m)\<rparr>))"

text \<open>
  The handler of the \<open>catch\<close>: a value that is not an object is thrown again; on
  \<open>null\<close> the read of \<open>err.code\<close> throws a \<open>TypeError\<close>; an object is thrown again
  unless its \<open>code\<close> is the string \<open>ENOENT\<close>.
\<close>

definition getFileContentAndMode :: "world \<Rightarrow> string \<Rightarrow> bool \<Rightarrow> File io" where
  "getFileContentAndMode w filePath deleteIfNotExist_arg =
     (if \<not> deleteIfNotExist_arg then statAndRead w filePath
      else catch (statAndRead w filePath)
             (\<lambda>error. case error of
                  Prim _ \<Rightarrow> throw error
                | Null \<Rightarrow> throw (newError ''TypeError: Cannot read properties of null'')
                | Obj _ c \<Rightarrow>
                    if c \<noteq> Some ''ENOENT'' then throw error
                    else (let m = M100644
                          in ret \<lparr>f_path = filePath, f_content = None, f_sha = ShaNull,
                                  f_mode = m, f_type = Some (getFileType m)\<rparr>)))"

definition createTreeFile :: "world \<Rightarrow> Options \<Rightarrow> string \<Rightarrow> File io" where
  "createTreeFile w opts filePath =
     bind (getFileContentAndMode w (path_join w (orEmptyString (rootDir opts)) filePath)
             (flag (deleteIfNotExist opts)))
       (\<lambda>file. ret \<lparr>f_path = filePath, f_content = f_content file, f_sha = f_sha file,
                     f_mode = f_mode file, f_type = Some (getFileType (f_mode file))\<rparr>)"

definition createDeletedTreeFile :: "world \<Rightarrow> Options \<Rightarrow> string \<Rightarrow> File io" where
  "createDeletedTreeFile w opts filePath =
     bind (getFileContentAndMode w (path_join w (orEmptyString (rootDir opts)) filePath)
             (flag (deleteIfNotExist opts)))
       (\<lambda>file. ret \<lparr>f_path = filePath, f_content = None, f_sha = ShaNull,
                     f_mode = f_mode file, f_type = Some (getFileType (f_mode file))\<rparr>)"

text \<open>A \<open>for ... of\<close> loop that awaits one entry after the other and pushes it.\<close>

fun forEach :: "('a \<Rightarrow> 'b io) \<Rightarrow> 'a list \<Rightarrow> 'b list io" where
  "forEach f [] = ret []"
| "forEach f (x # xs) = bind (f x) (\<lambda>y. bind (forEach f xs) (\<lambda>ys. ret (y # ys)))"

definition getTreeSHA :: "world \<Rightarrow> Options \<Rightarrow> Ref \<Rightarrow> string io" where
  "getTreeSHA w opts baseBranch_arg =
     (if flag (empty opts) then ret (tree_oid baseBranch_arg)
      else bind (forEach (createTreeFile w opts) (orEmptyList (files opts)))
             (\<lambda>added. bind (forEach (createDeletedTreeFile w opts) (orEmptyList (deletedFiles opts)))
                (\<lambda>deleted.
                   let tree = added @ deleted;
                       baseTree = (if flag (noParent opts) then None
                                   else Some (tree_oid baseBranch_arg))
                   in createTree_call w (owner opts) (repo opts) tree baseTree)))"

subsection \<open>Validation, refs and the commit\<close>

fun requireKeys :: "(string \<times> string) list \<Rightarrow> unit io" where
  "requireKeys [] = ret ()"
| "requireKeys ((key, v) # rest) =
     (if \<not> truthy v then throw (newError (key @ '' is required'')) else requireKeys rest)"

definition validateOptions :: "Options \<Rightarrow> unit io" where
  "validateOptions opts =
     requireKeys [(''owner'', owner opts), (''repo'', repo opts),
                  (''branch'', branch opts), (''message'', message opts)]"

definition isError :: "thrown \<Rightarrow> bool" where
  "isError v = (case v of Obj (Some _) _ \<Rightarrow> True | _ \<Rightarrow> False)"

definition message_of :: "thrown \<Rightarrow> string" where
  "message_of v = (case v of Obj (Some m) _ \<Rightarrow> m | _ \<Rightarrow> [])"

definition updateRef :: "world \<Rightarrow> Options \<Rightarrow> string \<Rightarrow> Result io" where
  "updateRef w opts sha =
     bind (updateRef_call w (owner opts) (repo opts) (''heads/'' @ branch opts) sha
             (Some (flag (forcePush opts))))
       (\<lambda>s. ret \<lparr>commit_sha = s\<rparr>)"

definition createRef :: "world \<Rightarrow> Options \<Rightarrow> string \<Rightarrow> Result io" where
  "createRef w opts sha =
     bind (createRef_call w (owner opts) (repo opts) (''refs/heads/'' @ branch opts) sha)
       (\<lambda>s. ret \<lparr>commit_sha = s\<rparr>)"

text \<open>\<open>createCommit\<close>: \<open>None\<close> is the \<open>undefined\<close> it returns when there is nothing to do.\<close>

definition createCommit :: "world \<Rightarrow> Options \<Rightarrow> Result option io" where
  "createCommit w opts =
     (if \<not> hasLength (files opts) \<and> \<not> hasLength (deletedFiles opts) \<and> \<not> flag (empty opts)
      then ret None
      else
        bind (validateOptions opts) (\<lambda>_.
        bind (getBaseBranch w opts) (\<lambda>baseBranch_v.
        bind (getTreeSHA w opts baseBranch_v) (\<lambda>treeSHA.
        let parents = (if flag (noParent opts) then None else Some [oid baseBranch_v])
        in bind (createCommit_call w (owner opts) (repo opts) (message opts) treeSHA parents)
             (\<lambda>commit.
                catch (bind (updateRef w opts commit) (\<lambda>r. ret (Some r)))
                  (\<lambda>error.
                     if \<not> isError error then throw error
                     else if \<not> includes_str (message_of error) ''Reference does not exist''
                     then throw error
                     else bind (createRef w opts commit) (\<lambda>r. ret (Some r))))))))"

section \<open>\<open>main.ts\<close>\<close>

definition getBranch_main :: "world \<Rightarrow> string \<Rightarrow> string \<Rightarrow> string \<Rightarrow> Ref_main option io" where
  "getBranch_main w ow rp br = ([EGetBranch ow rp br], q_ref_main w ow rp br)"

definition getDefaultBranch_main :: "world \<Rightarrow> Options_main \<Rightarrow> Ref_main io" where
  "getDefaultBranch_main w opts =
     ([EGetDefaultBranch (owner_m opts) (repo_m opts)],
      q_defaultBranchRef_main w (owner_m opts) (repo_m opts))"

definition getBaseBranch_main :: "world \<Rightarrow> Options_main \<Rightarrow> Ref_main io" where
  "getBaseBranch_main w opts =
     (if \<not> truthy (branch_m opts) then throw (newError ''branch is not specified'')
      else bind (getBranch_main w (owner_m opts) (repo_m opts) (branch_m opts))
             (\<lambda>b. case b of
                     Some r \<Rightarrow> ret r
                   | None \<Rightarrow> getDefaultBranch_main w opts))"

text \<open>
  \<open>Promise.all\<close> of two calls: both are started, and the result rejects when one of
  them does. When both reject, the model takes the rejection of the first call
  (Node takes the one that settles first).
\<close>

definition promiseAll2 :: "'a io \<Rightarrow> 'b io \<Rightarrow> ('a \<times> 'b) io" where
  "promiseAll2 m1 m2 =
     (case m1 of (l1, r1) \<Rightarrow>
        (case m2 of (l2, r2) \<Rightarrow>
           (l1 @ l2,
            (case r1 of
               Inl e \<Rightarrow> Inl e
             | Inr a \<Rightarrow> (case r2 of Inl e \<Rightarrow> Inl e | Inr b \<Rightarrow> Inr (a, b))))))"

definition getFileContentAndMode_main :: "world \<Rightarrow> string \<Rightarrow> File io" where
  "getFileContentAndMode_main w filePath =
     bind (promiseAll2 (readFile w filePath) (stat w filePath))
       (\<lambda>(content, stats).
          ret \<lparr>f_path = filePath, f_content = Some content, f_sha = ShaAbsent,
               f_mode = getFileMode_main (mode stats), f_type = Some Blob\<rparr>)"

definition commit :: "world \<Rightarrow> Options_main \<Rightarrow> Result option io" where
  "commit w opts =
     (if \<not> hasLength (files_m opts) \<and> \<not> flag (empty_m opts) then ret None
      else
        bind (requireKeys [(''owner'', owner_m opts), (''repo'', repo_m opts),
                           (''branch'', branch_m opts), (''message'', message_m opts)]) (\<lambda>_.
        bind (getBaseBranch_main w opts) (\<lambda>baseBranch_v.
        bind (if \<not> flag (empty_m opts) then
                bind (forEach
                        (\<lambda>filePath.
                           bind (getFileContentAndMode_main w filePath)
                             (\<lambda>file. ret \<lparr>f_path = filePath, f_content = f_content file,
                                           f_sha = ShaAbsent, f_mode = f_mode file,
                                           f_type = Some Blob\<rparr>))
                        (orEmptyList (files_m opts)))
                  (\<lambda>tree. createTree_call w (owner_m opts) (repo_m opts) tree
                             (Some (tree_oid baseBranch_v)))
              else ret (tree_oid baseBranch_v)) (\<lambda>treeSHA.
        bind (createCommit_call w (owner_m opts) (repo_m opts) (message_m opts) treeSHA
                (Some (if truthy_opt (parent_m opts) then [orEmptyString (parent_m opts)]
                       else [oid baseBranch_v])))
          (\<lambda>commit_v.
             if name baseBranch_v = branch_m opts then
               bind (updateRef_call w (owner_m opts) (repo_m opts) (''heads/'' @ branch_m opts)
                       commit_v None)
                 (\<lambda>s. ret (Some \<lparr>commit_sha = s\<rparr>))
             else
               bind (createRef_call w (owner_m opts) (repo_m opts)
                       (''refs/heads/'' @ branch_m opts) commit_v)
                 (\<lambda>s. ret (Some \<lparr>commit_sha = s\<rparr>)))))))"

section \<open>Reading the log\<close>

text \<open>The arguments \<open>(tree, base_tree)\<close> of the \<open>createTree\<close> calls and
  \<open>(tree, parents)\<close> of the \<open>createCommit\<close> calls of a log, in order.\<close>

fun createTreeArgs :: "event list \<Rightarrow> (File list \<times> string option) list" where
  "createTreeArgs [] = []"
| "createTreeArgs (ECreateTree _ _ tree base_tree # evs) = (tree, base_tree) # createTreeArgs evs"
| "createTreeArgs (_ # evs) = createTreeArgs evs"

fun createCommitArgs :: "event list \<Rightarrow> (string \<times> string list option) list" where
  "createCommitArgs [] = []"
| "createCommitArgs (ECreateCommit _ _ _ tree parents # evs) = (tree, parents) # createCommitArgs evs"
| "createCommitArgs (_ # evs) = createCommitArgs evs"

section \<open>The tree the remote builds\<close>

text \<open>A tree of the remote is a map from paths to entries.\<close>

type_synonym tree_content = "string \<rightharpoonup> File"

text \<open>
  Modelled from the spec: what one entry of a \<open>createTree\<close> request does to a tree,
  which is the collaborator's work and not in the source. An entry whose \<open>sha\<close> is
  \<open>null\<close> removes its path, any other entry puts itself at its path.
\<close>

definition applyEntry :: "File \<Rightarrow> tree_content \<Rightarrow> tree_content" where
  "applyEntry e t = (if f_sha e = ShaNull then t(f_path e := None) else t(f_path e \<mapsto> e))"

text \<open>
  Modelled from the spec: the tree that \<open>createTree\<close> of the remote builds, which is
  the collaborator's work and not in the source. Without a base tree the new tree is
  built from the entries of the request only; with a base tree, entries of the base
  that the request does not name stay. \<open>store\<close> gives the content of the trees the
  remote holds.
\<close>

definition remoteTree :: "(string \<Rightarrow> tree_content) \<Rightarrow> File list \<Rightarrow> string option \<Rightarrow> tree_content" where
  "remoteTree store entries base_tree =
     fold applyEntry entries (case base_tree of None \<Rightarrow> Map.empty | Some b \<Rightarrow> store b)"

section \<open>Concrete collaborators for the examples\<close>

definition enoent :: "string \<Rightarrow> thrown" where
  "enoent p = Obj (Some (''ENOENT: no such file or directory, '' @ p)) (Some ''ENOENT'')"

text \<open>
  A repository \<open>o/r\<close> whose only branch is \<open>main\<close> (commit \<open>c0\<close>, tree \<open>t0\<close>) and a
  working directory that holds the regular file \<open>a.txt\<close> (mode \<open>0o100644 = 33188\<close>)
  and nothing else. \<open>updateRef\<close> rejects for any other ref the way the API does.
\<close>

definition sample_world :: world where
  "sample_world =
     \<lparr>fs_stat = (\<lambda>p. if p = ''a.txt'' then Inr \<lparr>mode = 33188, isDirectory = False, isFile = True\<rparr>
                      else Inl (enoent p)),
      fs_readFile = (\<lambda>p. if p = ''a.txt'' then Inr ''hello'' else Inl (enoent p)),
      path_join = (\<lambda>a b. if a = [] then b else a @ ''/'' @ b),
      path_isAbsolute = (\<lambda>p. startsWith p ''/''),
      path_resolve = (\<lambda>a b. a @ ''/'' @ b),
      q_tree = (\<lambda>_ _ _. Inr ''t9''),
      q_ref = (\<lambda>_ _ b. if b = ''main'' then Inr (Some \<lparr>oid = ''c0'', tree_oid = ''t0''\<rparr>)
                        else Inr None),
      q_defaultBranchRef = (\<lambda>_ _. Inr \<lparr>oid = ''c0'', tree_oid = ''t0''\<rparr>),
      q_ref_main = (\<lambda>_ _ b. if b = ''main''
                             then Inr (Some \<lparr>oid = ''c0'', tree_oid = ''t0'', name = ''main''\<rparr>)
                             else Inr None),
      q_defaultBranchRef_main = (\<lambda>_ _. Inr \<lparr>oid = ''c0'', tree_oid = ''t0'', name = ''main''\<rparr>),
      git_createTree = (\<lambda>_ _ _ _. Inr ''t1''),
      git_createCommit = (\<lambda>_ _ _ _ _. Inr ''c1''),
      git_updateRef = (\<lambda>_ _ r s _. if r = ''heads/main'' then Inr s
                                    else Inl (newError ''Reference does not exist'')),
      git_createRef = (\<lambda>_ _ _ s. Inr s)\<rparr>"

definition sample_opts :: Options where
  "sample_opts =
     \<lparr>owner = ''o'', repo = ''r'', branch = ''main'', message = ''m'', rootDir = None,
      empty = None, files = Some [''a.txt''], baseSHA = None, baseBranch = None,
      noParent = None, deletedFiles = None, deleteIfNotExist = None, forcePush = None\<rparr>"

definition sample_opts_main :: Options_main where
  "sample_opts_main =
     \<lparr>owner_m = ''o'', repo_m = ''r'', branch_m = ''main'', message_m = ''m'',
      empty_m = Some True, files_m = None, parent_m = None, noParent_m = Some True,
      directory_m = None, deletedFiles_m = None, deleteIfNotExist_m = None,
      forcePush_m = None\<rparr>"

text \<open>
  A git directory \<open>g\<close> whose \<open>HEAD\<close> is the symbolic ref \<open>refs/heads/main\<close>, whose
  loose ref file is there but cannot be read (\<open>EACCES\<close>) and whose \<open>packed-refs\<close>
  lists \<open>1111\<close> for that ref.
\<close>

definition unreadable_ref_world :: world where
  "unreadable_ref_world = sample_world
     \<lparr>fs_readFile :=
        (\<lambda>p. if p = ''g/HEAD'' then Inr ''ref: refs/heads/main\<newline>''
              else if p = ''g/refs/heads/main''
              then Inl (Obj (Some ''EACCES: permission denied, open g/refs/heads/main'')
                            (Some ''EACCES''))
              else if p = ''g/packed-refs''
              then Inr ''# pack-refs with: peeled fully-peeled sorted\<newline>1111 refs/heads/main\<newline>''
              else Inl (enoent p))\<rparr>"

text \<open>The same directory with a readable loose ref \<open>2222\<close>, and with no loose ref.\<close>

definition loose_ref_world :: world where
  "loose_ref_world = sample_world
     \<lparr>fs_readFile :=
        (\<lambda>p. if p = ''g/HEAD'' then Inr ''ref: refs/heads/main\<newline>''
              else if p = ''g/refs/heads/main'' then Inr ''2222\<newline>''
              else if p = ''g/packed-refs''
              then Inr ''# pack-refs with: peeled fully-peeled sorted\<newline>1111 refs/heads/main\<newline>''
              else Inl (enoent p))\<rparr>"

definition packed_ref_world :: world where
  "packed_ref_world = sample_world
     \<lparr>fs_readFile :=
        (\<lambda>p. if p = ''g/HEAD'' then Inr ''ref: refs/heads/main\<newline>''
              else if p = ''g/packed-refs''
              then Inr ''# pack-refs with: peeled fully-peeled sorted\<newline>1111 refs/heads/main\<newline>''
              else Inl (enoent p))\<rparr>"

text \<open>A store of the remote in which the tree \<open>t0\<close> holds \<open>old.txt\<close>.\<close>

definition sample_store :: "string \<Rightarrow> tree_content" where
  "sample_store t =
     (if t = ''t0''
      then [''old.txt'' \<mapsto> \<lparr>f_path = ''old.txt'', f_content = Some ''old'', f_sha = ShaAbsent,
                             f_mode = M100644, f_type = Some Blob\<rparr>]
      else Map.empty)"

section \<open>Properties\<close>

subsection \<open>The effect combinators\<close>

lemma bind_Inr: "bind (l, Inr a) f = (l @ fst (f a), snd (f a))"
  by (simp add: bind_def split: prod.splits)

lemma bind_Inl: "bind (l, Inl e) f = (l, Inl e)"
  by (simp add: bind_def)

lemma bind_ret: "bind (ret a) f = f a"
  by (simp add: ret_def bind_Inr)

lemma bind_throw: "bind (throw e) f = throw e"
  by (simp add: throw_def bind_Inl)

lemma catch_Inr: "catch (l, Inr a) h = (l, Inr a)"
  by (simp add: catch_def)

lemma catch_Inl: "catch (l, Inl e) h = (l @ fst (h e), snd (h e))"
  by (simp add: catch_def split: prod.splits)

lemmas io_simps = bind_Inr bind_Inl bind_ret bind_throw catch_Inr catch_Inl

lemma fst_bind: "fst (bind (l, r) f) = l @ (case r of Inl e \<Rightarrow> [] | Inr a \<Rightarrow> fst (f a))"
  by (cases r) (simp_all add: io_simps)

lemma createTreeArgs_append: "createTreeArgs (a @ b) = createTreeArgs a @ createTreeArgs b"
  by (induction a rule: createTreeArgs.induct) simp_all

lemma createCommitArgs_append: "createCommitArgs (a @ b) = createCommitArgs a @ createCommitArgs b"
  by (induction a rule: createCommitArgs.induct) simp_all

lemma sample_world_sel:
  "fs_stat sample_world =
     (\<lambda>p. if p = ''a.txt'' then Inr \<lparr>mode = 33188, isDirectory = False, isFile = True\<rparr>
          else Inl (enoent p))"
  "fs_readFile sample_world = (\<lambda>p. if p = ''a.txt'' then Inr ''hello'' else Inl (enoent p))"
  "path_join sample_world = (\<lambda>a b. if a = [] then b else a @ ''/'' @ b)"
  "q_tree sample_world = (\<lambda>_ _ _. Inr ''t9'')"
  "q_ref sample_world =
     (\<lambda>_ _ b. if b = ''main'' then Inr (Some \<lparr>oid = ''c0'', tree_oid = ''t0''\<rparr>) else Inr None)"
  "q_defaultBranchRef sample_world = (\<lambda>_ _. Inr \<lparr>oid = ''c0'', tree_oid = ''t0''\<rparr>)"
  "git_createTree sample_world = (\<lambda>_ _ _ _. Inr ''t1'')"
  "git_createCommit sample_world = (\<lambda>_ _ _ _ _. Inr ''c1'')"
  "git_updateRef sample_world =
     (\<lambda>_ _ r s _. if r = ''heads/main'' then Inr s
                  else Inl (newError ''Reference does not exist''))"
  "git_createRef sample_world = (\<lambda>_ _ _ s. Inr s)"
  by (simp_all add: sample_world_def)

subsection \<open>Nothing to do\<close>

text \<open>
  C1. A request with no additions, no deletions and \<open>empty\<close> unset returns
  \<open>undefined\<close> and the log of calls is empty: no query, no tree, commit or ref call
  (and no file-system read either). This holds for \<open>createCommit\<close> and for \<open>commit\<close>
  of \<open>main.ts\<close>.
\<close>

theorem noop_makes_no_call:
  "(\<not> hasLength (files opts) \<and> \<not> hasLength (deletedFiles opts) \<and> \<not> flag (empty opts)
      \<longrightarrow> createCommit w opts = ([], Inr None))
   \<and> (\<not> hasLength (files_m optsm) \<and> \<not> hasLength (deletedFiles_m optsm) \<and> \<not> flag (empty_m optsm)
      \<longrightarrow> commit w optsm = ([], Inr None))"
  by (simp add: createCommit_def commit_def ret_def)

theorem noop_makes_no_call_witness:
  "\<not> hasLength (files (sample_opts\<lparr>files := Some []\<rparr>))
   \<and> \<not> hasLength (deletedFiles (sample_opts\<lparr>files := Some []\<rparr>))
   \<and> \<not> flag (empty (sample_opts\<lparr>files := Some []\<rparr>))
   \<and> createCommit sample_world (sample_opts\<lparr>files := Some []\<rparr>) = ([], Inr None)
   \<and> \<not> hasLength (files_m (sample_opts_main\<lparr>empty_m := Some False\<rparr>))
   \<and> \<not> hasLength (deletedFiles_m (sample_opts_main\<lparr>empty_m := Some False\<rparr>))
   \<and> \<not> flag (empty_m (sample_opts_main\<lparr>empty_m := Some False\<rparr>))
   \<and> commit sample_world (sample_opts_main\<lparr>empty_m := Some False\<rparr>) = ([], Inr None)"
  using noop_makes_no_call [where opts = "sample_opts\<lparr>files := Some []\<rparr>"
      and optsm = "sample_opts_main\<lparr>empty_m := Some False\<rparr>" and w = sample_world]
  by (simp add: hasLength_def flag_def sample_opts_def sample_opts_main_def)

subsection \<open>Base branch\<close>

text \<open>
  C2. The base is resolved in a strict order. With a non-empty \<open>baseSHA\<close> the only
  call is the query for the tree of that commit, whatever \<open>baseBranch\<close> is: the base
  branch is not looked up. Without one and with a non-empty \<open>baseBranch\<close>, that
  branch is looked up (and the resolution fails when it does not exist). With
  neither, the target branch is looked up and used when it exists, and the default
  branch is queried otherwise.
\<close>

theorem base_resolution_priority:
  "(truthy_opt (baseSHA opts) \<longrightarrow>
      getBaseBranch w opts =
        ([EGetTree (owner opts) (repo opts) (orEmptyString (baseSHA opts))],
         (case q_tree w (owner opts) (repo opts) (orEmptyString (baseSHA opts)) of
            Inl e \<Rightarrow> Inl e
          | Inr t \<Rightarrow> Inr \<lparr>oid = orEmptyString (baseSHA opts), tree_oid = t\<rparr>)))
   \<and> (\<not> truthy_opt (baseSHA opts) \<and> truthy_opt (baseBranch opts) \<longrightarrow>
      getBaseBranch w opts =
        ([EGetBranch (owner opts) (repo opts) (orEmptyString (baseBranch opts))],
         (case q_ref w (owner opts) (repo opts) (orEmptyString (baseBranch opts)) of
            Inl e \<Rightarrow> Inl e
          | Inr None \<Rightarrow> Inl (newError (''Branch '' @ branch opts @ '' does not exist in ''
                                         @ owner opts @ ''/'' @ repo opts))
          | Inr (Some r) \<Rightarrow> Inr r)))
   \<and> (\<not> truthy_opt (baseSHA opts) \<and> \<not> truthy_opt (baseBranch opts) \<longrightarrow>
      getBaseBranch w opts =
        (case q_ref w (owner opts) (repo opts) (branch opts) of
           Inl e \<Rightarrow> ([EGetBranch (owner opts) (repo opts) (branch opts)], Inl e)
         | Inr (Some r) \<Rightarrow> ([EGetBranch (owner opts) (repo opts) (branch opts)], Inr r)
         | Inr None \<Rightarrow> ([EGetBranch (owner opts) (repo opts) (branch opts),
                          EGetDefaultBranch (owner opts) (repo opts)],
                         q_defaultBranchRef w (owner opts) (repo opts))))"
  by (auto simp: getBaseBranch_def getTree_def getBranch_def getDefaultBranch_def io_simps
        ret_def throw_def split: sum.splits option.splits)

theorem base_resolution_priority_witness:
  "truthy_opt (baseSHA (sample_opts\<lparr>baseSHA := Some ''abc'', baseBranch := Some ''dev''\<rparr>))
   \<and> truthy_opt (baseBranch (sample_opts\<lparr>baseSHA := Some ''abc'', baseBranch := Some ''dev''\<rparr>))
   \<and> getBaseBranch sample_world (sample_opts\<lparr>baseSHA := Some ''abc'', baseBranch := Some ''dev''\<rparr>)
       = ([EGetTree ''o'' ''r'' ''abc''], Inr \<lparr>oid = ''abc'', tree_oid = ''t9''\<rparr>)
   \<and> \<not> truthy_opt (baseSHA (sample_opts\<lparr>baseBranch := Some ''main'', branch := ''feat-x''\<rparr>))
   \<and> truthy_opt (baseBranch (sample_opts\<lparr>baseBranch := Some ''main'', branch := ''feat-x''\<rparr>))
   \<and> getBaseBranch sample_world (sample_opts\<lparr>baseBranch := Some ''main'', branch := ''feat-x''\<rparr>)
       = ([EGetBranch ''o'' ''r'' ''main''], Inr \<lparr>oid = ''c0'', tree_oid = ''t0''\<rparr>)
   \<and> \<not> truthy_opt (baseSHA (sample_opts\<lparr>branch := ''feat-x''\<rparr>))
   \<and> \<not> truthy_opt (baseBranch (sample_opts\<lparr>branch := ''feat-x''\<rparr>))
   \<and> getBaseBranch sample_world (sample_opts\<lparr>branch := ''feat-x''\<rparr>)
       = ([EGetBranch ''o'' ''r'' ''feat-x'', EGetDefaultBranch ''o'' ''r''],
          Inr \<lparr>oid = ''c0'', tree_oid = ''t0''\<rparr>)"
  using base_resolution_priority [where w = sample_world
          and opts = "sample_opts\<lparr>baseSHA := Some ''abc'', baseBranch := Some ''dev''\<rparr>"]
        base_resolution_priority [where w = sample_world
          and opts = "sample_opts\<lparr>baseBranch := Some ''main'', branch := ''feat-x''\<rparr>"]
        base_resolution_priority [where w = sample_world
          and opts = "sample_opts\<lparr>branch := ''feat-x''\<rparr>"]
  by (simp add: sample_opts_def sample_world_sel truthy_opt_def truthy_def orEmptyString_def)

lemma getBaseBranch_log:
  "createTreeArgs (fst (getBaseBranch w opts)) = []
   \<and> createCommitArgs (fst (getBaseBranch w opts)) = []
   \<and> list_all isRemote (fst (getBaseBranch w opts))"
  by (auto simp: getBaseBranch_def getTree_def getBranch_def getDefaultBranch_def fst_bind
        ret_def throw_def isRemote_def split: sum.splits option.splits)

lemmas eval_defs = createCommit_def validateOptions_def getBaseBranch_def getTreeSHA_def
  createTreeFile_def createDeletedTreeFile_def getFileContentAndMode_def statAndRead_def
  stat_def readFile_def getTree_def getBranch_def getDefaultBranch_def
  createTree_call_def createCommit_call_def updateRef_call_def createRef_call_def
  updateRef_def createRef_def getFileMode_def hasLength_def flag_def truthy_def truthy_opt_def
  orEmptyList_def orEmptyString_def isError_def message_of_def newError_def ret_def throw_def
  Let_def startsWith_def

subsection \<open>Creating the commit and moving the ref\<close>

lemma validateOptions_cases:
  "validateOptions opts = ([], Inr ()) \<or> (\<exists>e. validateOptions opts = ([], Inl e))"
  by (simp add: validateOptions_def ret_def throw_def)

lemma validateOptions_ok:
  "owner opts \<noteq> [] \<Longrightarrow> repo opts \<noteq> [] \<Longrightarrow> branch opts \<noteq> [] \<Longrightarrow> message opts \<noteq> []
   \<Longrightarrow> validateOptions opts = ([], Inr ())"
  by (simp add: validateOptions_def ret_def truthy_def)

lemma createCommit_steps:
  assumes "hasLength (files opts) \<or> hasLength (deletedFiles opts) \<or> flag (empty opts)"
    and "validateOptions opts = ([], Inr ())"
    and "getBaseBranch w opts = (l1, Inr base)"
    and "getTreeSHA w opts base = (l2, Inr t)"
  shows "createCommit w opts =
           bind (l1 @ l2 @ [ECreateCommit (owner opts) (repo opts) (message opts) t
                              (if flag (noParent opts) then None else Some [oid base])],
                 git_createCommit w (owner opts) (repo opts) (message opts) t
                              (if flag (noParent opts) then None else Some [oid base]))
             (\<lambda>c. catch (bind (updateRef w opts c) (\<lambda>r. ret (Some r)))
       (\<lambda>error.
          if \<not> isError error then throw error
          else if \<not> includes_str (message_of error) ''Reference does not exist''
          then throw error
          else bind (createRef w opts c) (\<lambda>r. ret (Some r))))"
  using assms
  by (cases "git_createCommit w (owner opts) (repo opts) (message opts) t
                              (if flag (noParent opts) then None else Some [oid base])")
     (auto simp add: createCommit_def io_simps Let_def createCommit_call_def)

lemma ref_upsert:
  "catch (bind (updateRef w opts c) (\<lambda>r. ret (Some r)))
       (\<lambda>error.
          if \<not> isError error then throw error
          else if \<not> includes_str (message_of error) ''Reference does not exist''
          then throw error
          else bind (createRef w opts c) (\<lambda>r. ret (Some r)))
   = (case git_updateRef w (owner opts) (repo opts) (''heads/'' @ branch opts) c
             (Some (flag (forcePush opts))) of
        Inr s \<Rightarrow> ([EUpdateRef (owner opts) (repo opts) (''heads/'' @ branch opts) c
                     (Some (flag (forcePush opts)))], Inr (Some \<lparr>commit_sha = s\<rparr>))
      | Inl e \<Rightarrow>
          if isError e \<and> includes_str (message_of e) ''Reference does not exist''
          then ([EUpdateRef (owner opts) (repo opts) (''heads/'' @ branch opts) c
                   (Some (flag (forcePush opts))),
                 ECreateRef (owner opts) (repo opts) (''refs/heads/'' @ branch opts) c],
                (case git_createRef w (owner opts) (repo opts) (''refs/heads/'' @ branch opts) c of
                   Inl e' \<Rightarrow> Inl e'
                 | Inr s \<Rightarrow> Inr (Some \<lparr>commit_sha = s\<rparr>)))
          else ([EUpdateRef (owner opts) (repo opts) (''heads/'' @ branch opts) c
                   (Some (flag (forcePush opts)))], Inl e))"
  by (auto simp: updateRef_def createRef_def updateRef_call_def createRef_call_def io_simps
        ret_def throw_def split: sum.splits)

text \<open>
  C3. Once the commit object is written, \<open>updateRef\<close> is called, whatever the base
  was. When it succeeds its result is returned. When it rejects, \<open>createRef\<close> is
  called exactly when the rejection is an object with a string message that contains
  \<open>Reference does not exist\<close>; any other rejection is the result of \<open>createCommit\<close>,
  unchanged, and no ref is created.
\<close>

theorem update_first_then_create:
  assumes "hasLength (files opts) \<or> hasLength (deletedFiles opts) \<or> flag (empty opts)"
    and "validateOptions opts = ([], Inr ())"
    and "getBaseBranch w opts = (l1, Inr base)"
    and "getTreeSHA w opts base = (l2, Inr t)"
    and "git_createCommit w (owner opts) (repo opts) (message opts) t
           (if flag (noParent opts) then None else Some [oid base]) = Inr c"
  shows "createCommit w opts =
     (case git_updateRef w (owner opts) (repo opts) (''heads/'' @ branch opts) c
             (Some (flag (forcePush opts))) of
        Inr s \<Rightarrow>
          (l1 @ l2 @
           [ECreateCommit (owner opts) (repo opts) (message opts) t
              (if flag (noParent opts) then None else Some [oid base]),
            EUpdateRef (owner opts) (repo opts) (''heads/'' @ branch opts) c
              (Some (flag (forcePush opts)))],
           Inr (Some \<lparr>commit_sha = s\<rparr>))
      | Inl e \<Rightarrow>
          if isError e \<and> includes_str (message_of e) ''Reference does not exist''
          then
            (l1 @ l2 @
             [ECreateCommit (owner opts) (repo opts) (message opts) t
                (if flag (noParent opts) then None else Some [oid base]),
              EUpdateRef (owner opts) (repo opts) (''heads/'' @ branch opts) c
                (Some (flag (forcePush opts))),
              ECreateRef (owner opts) (repo opts) (''refs/heads/'' @ branch opts) c],
             (case git_createRef w (owner opts) (repo opts) (''refs/heads/'' @ branch opts) c of
                Inl e' \<Rightarrow> Inl e'
              | Inr s \<Rightarrow> Inr (Some \<lparr>commit_sha = s\<rparr>)))
          else
            (l1 @ l2 @
             [ECreateCommit (owner opts) (repo opts) (message opts) t
                (if flag (noParent opts) then None else Some [oid base]),
              EUpdateRef (owner opts) (repo opts) (''heads/'' @ branch opts) c
                (Some (flag (forcePush opts)))],
             Inl e))"
  unfolding createCommit_steps [OF assms(1-4)] assms(5) bind_Inr ref_upsert
  by (auto split: sum.splits)

theorem update_first_then_create_witness:
  "(hasLength (files (sample_opts\<lparr>branch := ''feat-x''\<rparr>))
      \<or> hasLength (deletedFiles (sample_opts\<lparr>branch := ''feat-x''\<rparr>))
      \<or> flag (empty (sample_opts\<lparr>branch := ''feat-x''\<rparr>)))
   \<and> validateOptions (sample_opts\<lparr>branch := ''feat-x''\<rparr>) = ([], Inr ())
   \<and> getBaseBranch sample_world (sample_opts\<lparr>branch := ''feat-x''\<rparr>)
       = ([EGetBranch ''o'' ''r'' ''feat-x'', EGetDefaultBranch ''o'' ''r''],
          Inr \<lparr>oid = ''c0'', tree_oid = ''t0''\<rparr>)
   \<and> getTreeSHA sample_world (sample_opts\<lparr>branch := ''feat-x''\<rparr>) \<lparr>oid = ''c0'', tree_oid = ''t0''\<rparr>
       = ([EStat ''a.txt'', EReadFile ''a.txt'',
           ECreateTree ''o'' ''r''
             [\<lparr>f_path = ''a.txt'', f_content = Some ''hello'', f_sha = ShaAbsent,
               f_mode = M100644, f_type = Some Blob\<rparr>] (Some ''t0'')],
          Inr ''t1'')
   \<and> git_createCommit sample_world ''o'' ''r'' ''m'' ''t1'' (Some [''c0'']) = Inr ''c1''
   \<and> git_updateRef sample_world ''o'' ''r'' ''heads/feat-x'' ''c1'' (Some False)
       = Inl (newError ''Reference does not exist'')
   \<and> createCommit sample_world (sample_opts\<lparr>branch := ''feat-x''\<rparr>)
       = ([EGetBranch ''o'' ''r'' ''feat-x'', EGetDefaultBranch ''o'' ''r'',
           EStat ''a.txt'', EReadFile ''a.txt'',
           ECreateTree ''o'' ''r''
             [\<lparr>f_path = ''a.txt'', f_content = Some ''hello'', f_sha = ShaAbsent,
               f_mode = M100644, f_type = Some Blob\<rparr>] (Some ''t0''),
           ECreateCommit ''o'' ''r'' ''m'' ''t1'' (Some [''c0'']),
           EUpdateRef ''o'' ''r'' ''heads/feat-x'' ''c1'' (Some False),
           ECreateRef ''o'' ''r'' ''refs/heads/feat-x'' ''c1''],
          Inr (Some \<lparr>commit_sha = ''c1''\<rparr>))"
proof -
  let ?o = "sample_opts\<lparr>branch := ''feat-x''\<rparr>"
  let ?b = "\<lparr>oid = ''c0'', tree_oid = ''t0''\<rparr>"
  have sel: "owner ?o = ''o''" "repo ?o = ''r''" "message ?o = ''m''" "branch ?o = ''feat-x''"
    "flag (noParent ?o) = False" "flag (forcePush ?o) = False"
    by (simp_all add: sample_opts_def flag_def)
  have h1: "hasLength (files ?o) \<or> hasLength (deletedFiles ?o) \<or> flag (empty ?o)"
    by (simp add: sample_opts_def hasLength_def)
  have h2: "validateOptions ?o = ([], Inr ())"
    by (simp add: eval_defs sample_opts_def)
  have h3: "getBaseBranch sample_world ?o
       = ([EGetBranch ''o'' ''r'' ''feat-x'', EGetDefaultBranch ''o'' ''r''], Inr ?b)"
    by (simp add: eval_defs io_simps sample_world_def sample_opts_def)
  have h4: "getTreeSHA sample_world ?o ?b
       = ([EStat ''a.txt'', EReadFile ''a.txt'',
           ECreateTree ''o'' ''r''
             [\<lparr>f_path = ''a.txt'', f_content = Some ''hello'', f_sha = ShaAbsent,
               f_mode = M100644, f_type = Some Blob\<rparr>] (Some ''t0'')],
          Inr ''t1'')"
    by (simp add: eval_defs io_simps sample_world_def sample_opts_def)
  have h5: "git_createCommit sample_world (owner ?o) (repo ?o) (message ?o) ''t1''
           (if flag (noParent ?o) then None else Some [oid ?b]) = Inr ''c1''"
    by (simp add: sample_world_sel)
  have h6: "git_updateRef sample_world ''o'' ''r'' ''heads/feat-x'' ''c1'' (Some False)
       = Inl (newError ''Reference does not exist'')"
    by (simp add: sample_world_sel)
  have h7: "isError (newError ''Reference does not exist'')
      \<and> includes_str (message_of (newError ''Reference does not exist'')) ''Reference does not exist''"
    by (simp add: isError_def message_of_def newError_def startsWith_def)
  have h8: "git_createRef sample_world ''o'' ''r'' ''refs/heads/feat-x'' ''c1'' = Inr ''c1''"
    by (simp add: sample_world_sel)
  have c: "createCommit sample_world ?o
       = ([EGetBranch ''o'' ''r'' ''feat-x'', EGetDefaultBranch ''o'' ''r'',
           EStat ''a.txt'', EReadFile ''a.txt'',
           ECreateTree ''o'' ''r''
             [\<lparr>f_path = ''a.txt'', f_content = Some ''hello'', f_sha = ShaAbsent,
               f_mode = M100644, f_type = Some Blob\<rparr>] (Some ''t0''),
           ECreateCommit ''o'' ''r'' ''m'' ''t1'' (Some [''c0'']),
           EUpdateRef ''o'' ''r'' ''heads/feat-x'' ''c1'' (Some False),
           ECreateRef ''o'' ''r'' ''refs/heads/feat-x'' ''c1''],
          Inr (Some \<lparr>commit_sha = ''c1''\<rparr>))"
    using update_first_then_create [OF h1 h2 h3 h4 h5] h7
    by (simp add: sample_opts_def flag_def h6 h8)
  from h1 h2 h3 h4 h5 h6 c show ?thesis
    by (simp add: sample_opts_def flag_def)
qed

lemma ref_upsert_log:
  "createTreeArgs (fst (catch (bind (updateRef w opts c) (\<lambda>r. ret (Some r)))
       (\<lambda>error.
          if \<not> isError error then throw error
          else if \<not> includes_str (message_of error) ''Reference does not exist''
          then throw error
          else bind (createRef w opts c) (\<lambda>r. ret (Some r))))) = []
   \<and> createCommitArgs (fst (catch (bind (updateRef w opts c) (\<lambda>r. ret (Some r)))
       (\<lambda>error.
          if \<not> isError error then throw error
          else if \<not> includes_str (message_of error) ''Reference does not exist''
          then throw error
          else bind (createRef w opts c) (\<lambda>r. ret (Some r))))) = []
   \<and> list_all isRemote (fst (catch (bind (updateRef w opts c) (\<lambda>r. ret (Some r)))
       (\<lambda>error.
          if \<not> isError error then throw error
          else if \<not> includes_str (message_of error) ''Reference does not exist''
          then throw error
          else bind (createRef w opts c) (\<lambda>r. ret (Some r)))))"
  unfolding ref_upsert by (simp add: isRemote_def split: sum.splits)

lemma getTreeSHA_empty: "flag (empty opts) \<Longrightarrow> getTreeSHA w opts base = ([], Inr (tree_oid base))"
  by (simp add: getTreeSHA_def ret_def)

lemma createCommit_empty_log:
  assumes "flag (empty opts)"
  shows "createTreeArgs (fst (createCommit w opts)) = [] \<and> list_all isRemote (fst (createCommit w opts))"
proof -
  consider (bad) e where "validateOptions opts = ([], Inl e)"
    | (ok) "validateOptions opts = ([], Inr ())"
    using validateOptions_cases by blast
  then show ?thesis
  proof cases
    case bad
    with assms show ?thesis by (simp add: createCommit_def io_simps)
  next
    case ok
    obtain l1 r1 where gb: "getBaseBranch w opts = (l1, r1)" by (cases "getBaseBranch w opts")
    from getBaseBranch_log [of w opts] gb
    have l1: "createTreeArgs l1 = []" "list_all isRemote l1" by simp_all
    show ?thesis
    proof (cases r1)
      case (Inl e)
      with assms ok gb l1 show ?thesis by (simp add: createCommit_def io_simps)
    next
      case (Inr base)
      have st: "createCommit w opts =
           bind (l1 @ [] @ [ECreateCommit (owner opts) (repo opts) (message opts) (tree_oid base)
                              (if flag (noParent opts) then None else Some [oid base])],
                 git_createCommit w (owner opts) (repo opts) (message opts) (tree_oid base)
                              (if flag (noParent opts) then None else Some [oid base]))
             (\<lambda>c. catch (bind (updateRef w opts c) (\<lambda>r. ret (Some r)))
       (\<lambda>error.
          if \<not> isError error then throw error
          else if \<not> includes_str (message_of error) ''Reference does not exist''
          then throw error
          else bind (createRef w opts c) (\<lambda>r. ret (Some r))))"
        using createCommit_steps [of opts w l1 base "[]" "tree_oid base"] assms ok gb Inr
          getTreeSHA_empty [OF assms, of w base] by simp
      show ?thesis
      proof (cases "git_createCommit w (owner opts) (repo opts) (message opts) (tree_oid base)
                              (if flag (noParent opts) then None else Some [oid base])")
        case (Inl e)
        then show ?thesis unfolding st using l1
          by (simp add: io_simps isRemote_def createTreeArgs_append)
      next
        case (Inr c)
        then show ?thesis unfolding st using l1 ref_upsert_log [of w opts c]
          by (simp add: io_simps isRemote_def createTreeArgs_append)
      qed
    qed
  qed
qed

lemma createCommit_commit_args:
  assumes "hasLength (files opts) \<or> hasLength (deletedFiles opts) \<or> flag (empty opts)"
    and "validateOptions opts = ([], Inr ())"
    and "getBaseBranch w opts = (l1, Inr base)"
    and "getTreeSHA w opts base = (l2, Inr t)"
    and "createCommitArgs l2 = []"
  shows "createCommitArgs (fst (createCommit w opts)) =
           [(t, if flag (noParent opts) then None else Some [oid base])]"
proof -
  from getBaseBranch_log [of w opts] assms(3) have l1: "createCommitArgs l1 = []" by simp
  show ?thesis
  proof (cases "git_createCommit w (owner opts) (repo opts) (message opts) t
                              (if flag (noParent opts) then None else Some [oid base])")
    case (Inl e)
    then show ?thesis unfolding createCommit_steps [OF assms(1-4)] using l1 assms(5)
      by (simp add: io_simps createCommitArgs_append)
  next
    case (Inr c)
    then show ?thesis unfolding createCommit_steps [OF assms(1-4)]
      using l1 assms(5) ref_upsert_log [of w opts c]
      by (simp add: io_simps createCommitArgs_append)
  qed
qed

text \<open>
  C8. With \<open>empty\<close> set, \<open>getTreeSHA\<close> makes no call at all and returns the tree of
  the base; a run of \<open>createCommit\<close> then reads no file and creates no tree, and the
  one commit it creates (once the options are valid and the base is resolved) has
  the tree of the base, with the parents that \<open>noParent\<close> decides.
\<close>

theorem empty_commit_reuses_base_tree:
  assumes "flag (empty opts)"
  shows "getTreeSHA w opts base = ([], Inr (tree_oid base))
     \<and> createTreeArgs (fst (createCommit w opts)) = []
     \<and> list_all isRemote (fst (createCommit w opts))
     \<and> (validateOptions opts = ([], Inr ()) \<and> getBaseBranch w opts = (l1, Inr base')
          \<longrightarrow> createCommitArgs (fst (createCommit w opts))
                = [(tree_oid base', if flag (noParent opts) then None else Some [oid base'])])"
  using assms createCommit_empty_log [OF assms, of w] getTreeSHA_empty [OF assms]
    createCommit_commit_args [of opts w l1 base' "[]" "tree_oid base'"]
  by simp

theorem empty_commit_reuses_base_tree_witness:
  "flag (empty (sample_opts\<lparr>empty := Some True\<rparr>))
   \<and> getTreeSHA sample_world (sample_opts\<lparr>empty := Some True\<rparr>) \<lparr>oid = ''c0'', tree_oid = ''t0''\<rparr>
       = ([], Inr ''t0'')
   \<and> createTreeArgs (fst (createCommit sample_world (sample_opts\<lparr>empty := Some True\<rparr>))) = []
   \<and> validateOptions (sample_opts\<lparr>empty := Some True\<rparr>) = ([], Inr ())
   \<and> getBaseBranch sample_world (sample_opts\<lparr>empty := Some True\<rparr>)
       = ([EGetBranch ''o'' ''r'' ''main''], Inr \<lparr>oid = ''c0'', tree_oid = ''t0''\<rparr>)
   \<and> createCommitArgs (fst (createCommit sample_world (sample_opts\<lparr>empty := Some True\<rparr>)))
       = [(''t0'', Some [''c0''])]"
proof -
  let ?o = "sample_opts\<lparr>empty := Some True\<rparr>"
  have h1: "flag (empty ?o)"
    by (simp add: flag_def)
  have h2: "validateOptions ?o = ([], Inr ())"
    by (simp add: eval_defs sample_opts_def)
  have h3: "getBaseBranch sample_world ?o
       = ([EGetBranch ''o'' ''r'' ''main''], Inr \<lparr>oid = ''c0'', tree_oid = ''t0''\<rparr>)"
    by (simp add: eval_defs io_simps sample_world_def sample_opts_def)
  from empty_commit_reuses_base_tree [OF h1, of sample_world "\<lparr>oid = ''c0'', tree_oid = ''t0''\<rparr>"
      "[EGetBranch ''o'' ''r'' ''main'']" "\<lparr>oid = ''c0'', tree_oid = ''t0''\<rparr>"] h1 h2 h3
  show ?thesis
    by (simp add: sample_opts_def flag_def)
qed

text \<open>
  C10. The test for nothing to do comes before the validation: a request with no
  additions, no deletions and \<open>empty\<close> unset returns \<open>undefined\<close> without an error,
  whatever \<open>owner\<close>, \<open>repo\<close>, \<open>branch\<close> and \<open>message\<close> are. An error
  \<open>... is required\<close> is only the result for a request that passes that test, and it is
  the result for every such request with an empty required option, naming the first
  one.
\<close>

theorem noop_check_precedes_validation:
  "(\<not> hasLength (files opts) \<and> \<not> hasLength (deletedFiles opts) \<and> \<not> flag (empty opts)
      \<longrightarrow> createCommit w opts = ([], Inr None))
   \<and> (snd (createCommit w opts) = Inl (newError (key @ '' is required''))
      \<longrightarrow> hasLength (files opts) \<or> hasLength (deletedFiles opts) \<or> flag (empty opts))
   \<and> ((hasLength (files opts) \<or> hasLength (deletedFiles opts) \<or> flag (empty opts))
       \<and> (owner opts = [] \<or> repo opts = [] \<or> branch opts = [] \<or> message opts = [])
      \<longrightarrow> createCommit w opts =
            ([], Inl (newError ((if owner opts = [] then ''owner''
                                 else if repo opts = [] then ''repo''
                                 else if branch opts = [] then ''branch''
                                 else ''message'') @ '' is required''))))"
  by (auto simp: createCommit_def ret_def validateOptions_def truthy_def throw_def bind_Inl)

theorem noop_check_precedes_validation_witness:
  "\<not> hasLength (files (sample_opts\<lparr>files := None, owner := []\<rparr>))
   \<and> \<not> hasLength (deletedFiles (sample_opts\<lparr>files := None, owner := []\<rparr>))
   \<and> \<not> flag (empty (sample_opts\<lparr>files := None, owner := []\<rparr>))
   \<and> owner (sample_opts\<lparr>files := None, owner := []\<rparr>) = []
   \<and> createCommit sample_world (sample_opts\<lparr>files := None, owner := []\<rparr>) = ([], Inr None)
   \<and> hasLength (files (sample_opts\<lparr>owner := []\<rparr>))
   \<and> owner (sample_opts\<lparr>owner := []\<rparr>) = []
   \<and> createCommit sample_world (sample_opts\<lparr>owner := []\<rparr>)
       = ([], Inl (newError ''owner is required''))
   \<and> snd (createCommit sample_world (sample_opts\<lparr>owner := []\<rparr>))
       = Inl (newError (''owner'' @ '' is required''))"
  using noop_check_precedes_validation [where w = sample_world and key = "''owner''"
          and opts = "sample_opts\<lparr>files := None, owner := []\<rparr>"]
        noop_check_precedes_validation [where w = sample_world and key = "''owner''"
          and opts = "sample_opts\<lparr>owner := []\<rparr>"]
  by (simp add: sample_opts_def hasLength_def flag_def)

subsection \<open>Tree entries\<close>

lemma statAndRead_stat_fails:
  "fs_stat w p = Inl e \<Longrightarrow> statAndRead w p = ([EStat p], Inl e)"
  by (simp add: statAndRead_def stat_def io_simps)

lemma getFileContentAndMode_missing:
  assumes "fs_stat w p = Inl (Obj m (Some ''ENOENT''))"
  shows "getFileContentAndMode w p False = ([EStat p], Inl (Obj m (Some ''ENOENT'')))"
    and "getFileContentAndMode w p True =
           ([EStat p], Inr \<lparr>f_path = p, f_content = None, f_sha = ShaNull,
                            f_mode = M100644, f_type = Some Blob\<rparr>)"
  using assms
  by (simp_all add: getFileContentAndMode_def statAndRead_stat_fails io_simps ret_def)

lemma forEach_fails:
  "x \<in> set xs \<Longrightarrow> \<exists>e. snd (f x) = Inl e \<Longrightarrow> \<exists>e. snd (forEach f xs) = Inl e"
proof (induction xs)
  case Nil
  then show ?case by simp
next
  case (Cons a xs)
  obtain l r where fa: "f a = (l, r)" by (cases "f a")
  show ?case
  proof (cases r)
    case (Inl e)
    with fa show ?thesis by (simp add: io_simps)
  next
    case (Inr y)
    with Cons fa have "x \<in> set xs" by auto
    with Cons obtain e where e: "snd (forEach f xs) = Inl e" by blast
    obtain l' where "forEach f xs = (l', Inl e)" using e by (cases "forEach f xs") simp
    with fa Inr show ?thesis by (simp add: io_simps)
  qed
qed

lemma getTreeSHA_fails:
  assumes "\<not> flag (empty opts)"
    and "(\<exists>x \<in> set (orEmptyList (files opts)). \<exists>e. snd (createTreeFile w opts x) = Inl e)
       \<or> (\<exists>x \<in> set (orEmptyList (deletedFiles opts)). \<exists>e. snd (createDeletedTreeFile w opts x) = Inl e)"
  shows "\<exists>e. snd (getTreeSHA w opts base) = Inl e"
proof -
  obtain la ra where a: "forEach (createTreeFile w opts) (orEmptyList (files opts)) = (la, ra)"
    by (cases "forEach (createTreeFile w opts) (orEmptyList (files opts))")
  obtain ld rd where d: "forEach (createDeletedTreeFile w opts) (orEmptyList (deletedFiles opts)) = (ld, rd)"
    by (cases "forEach (createDeletedTreeFile w opts) (orEmptyList (deletedFiles opts))")
  show ?thesis
  proof (cases ra)
    case (Inl e)
    with assms(1) a show ?thesis by (simp add: getTreeSHA_def io_simps)
  next
    case ra: (Inr added)
    show ?thesis
    proof (cases rd)
      case (Inl e)
      with assms(1) a d ra show ?thesis by (simp add: getTreeSHA_def io_simps)
    next
      case (Inr deleted)
      from assms(2) forEach_fails [of _ "orEmptyList (files opts)" "createTreeFile w opts"]
        forEach_fails [of _ "orEmptyList (deletedFiles opts)" "createDeletedTreeFile w opts"]
        a d ra Inr
      show ?thesis by fastforce
    qed
  qed
qed

lemma forEach_member:
  "forEach f xs = (l, Inr ys) \<Longrightarrow> x \<in> set xs \<Longrightarrow> f x = (lx, Inr y) \<Longrightarrow> y \<in> set ys"
proof (induction xs arbitrary: l ys)
  case Nil
  then show ?case by simp
next
  case (Cons a xs)
  then show ?case
    by (auto simp: bind_def ret_def split: sum.splits prod.splits)
qed

text \<open>
  C5. A path is missing when \<open>stat\<close> of it (under \<open>rootDir\<close>) rejects with code
  \<open>ENOENT\<close>. Without \<open>deleteIfNotExist\<close>, the entry of an addition and of a deletion
  fails with that very error after the one \<open>stat\<close>, and so does the tree of a request
  that lists the path. With \<open>deleteIfNotExist\<close>, no error is raised and the entry is a
  deletion: \<open>sha\<close> is \<open>null\<close>, there is no content, the mode is \<open>100644\<close> and the
  type \<open>blob\<close>; when all entries of a request that lists the path are built, this
  entry is among them.
\<close>

theorem missing_path_policy:
  assumes "fs_stat w (path_join w (orEmptyString (rootDir opts)) filePath)
             = Inl (Obj m (Some ''ENOENT''))"
  shows "(\<not> flag (deleteIfNotExist opts) \<longrightarrow>
            createTreeFile w opts filePath =
              ([EStat (path_join w (orEmptyString (rootDir opts)) filePath)],
               Inl (Obj m (Some ''ENOENT'')))
          \<and> createDeletedTreeFile w opts filePath =
              ([EStat (path_join w (orEmptyString (rootDir opts)) filePath)],
               Inl (Obj m (Some ''ENOENT'')))
          \<and> (\<not> flag (empty opts)
               \<and> filePath \<in> set (orEmptyList (files opts)) \<union> set (orEmptyList (deletedFiles opts))
               \<longrightarrow> (\<exists>e. snd (getTreeSHA w opts base) = Inl e)))
       \<and> (flag (deleteIfNotExist opts) \<longrightarrow>
            createTreeFile w opts filePath =
              ([EStat (path_join w (orEmptyString (rootDir opts)) filePath)],
               Inr \<lparr>f_path = filePath, f_content = None, f_sha = ShaNull,
                    f_mode = M100644, f_type = Some Blob\<rparr>)
          \<and> createDeletedTreeFile w opts filePath =
              ([EStat (path_join w (orEmptyString (rootDir opts)) filePath)],
               Inr \<lparr>f_path = filePath, f_content = None, f_sha = ShaNull,
                    f_mode = M100644, f_type = Some Blob\<rparr>)
          \<and> (forEach (createTreeFile w opts) (orEmptyList (files opts)) = (la, Inr added)
               \<and> forEach (createDeletedTreeFile w opts) (orEmptyList (deletedFiles opts))
                   = (ld, Inr deleted)
               \<and> filePath \<in> set (orEmptyList (files opts)) \<union> set (orEmptyList (deletedFiles opts))
               \<longrightarrow> \<lparr>f_path = filePath, f_content = None, f_sha = ShaNull,
                     f_mode = M100644, f_type = Some Blob\<rparr> \<in> set (added @ deleted)))"
proof -
  let ?p = "path_join w (orEmptyString (rootDir opts)) filePath"
  let ?d = "\<lparr>f_path = filePath, f_content = None, f_sha = ShaNull,
             f_mode = M100644, f_type = Some Blob\<rparr>"
  have f: "createTreeFile w opts filePath = ([EStat ?p], Inl (Obj m (Some ''ENOENT'')))
          \<and> createDeletedTreeFile w opts filePath = ([EStat ?p], Inl (Obj m (Some ''ENOENT'')))"
    if "\<not> flag (deleteIfNotExist opts)"
    using that
    by (simp add: createTreeFile_def createDeletedTreeFile_def
          getFileContentAndMode_missing [OF assms] io_simps)
  have t: "createTreeFile w opts filePath = ([EStat ?p], Inr ?d)
          \<and> createDeletedTreeFile w opts filePath = ([EStat ?p], Inr ?d)"
    if "flag (deleteIfNotExist opts)"
    using that
    by (simp add: createTreeFile_def createDeletedTreeFile_def
          getFileContentAndMode_missing [OF assms] io_simps ret_def)
  have g: "\<exists>e. snd (getTreeSHA w opts base) = Inl e"
    if "\<not> flag (deleteIfNotExist opts)" "\<not> flag (empty opts)"
      "filePath \<in> set (orEmptyList (files opts)) \<union> set (orEmptyList (deletedFiles opts))"
    using getTreeSHA_fails [OF that(2), of w base] f [OF that(1)] that(3) by fastforce
  have s: "?d \<in> set (added @ deleted)"
    if "flag (deleteIfNotExist opts)"
      "forEach (createTreeFile w opts) (orEmptyList (files opts)) = (la, Inr added)"
      "forEach (createDeletedTreeFile w opts) (orEmptyList (deletedFiles opts)) = (ld, Inr deleted)"
      "filePath \<in> set (orEmptyList (files opts)) \<union> set (orEmptyList (deletedFiles opts))"
    using that(4)
  proof
    assume "filePath \<in> set (orEmptyList (files opts))"
    from forEach_member [OF that(2) this] t [OF that(1)] show ?thesis by simp
  next
    assume "filePath \<in> set (orEmptyList (deletedFiles opts))"
    from forEach_member [OF that(3) this] t [OF that(1)] show ?thesis by simp
  qed
  from f t g s show ?thesis by blast
qed

theorem missing_path_policy_witness:
  "fs_stat sample_world (path_join sample_world (orEmptyString (rootDir sample_opts)) ''b.txt'')
     = Inl (Obj (Some ''ENOENT: no such file or directory, b.txt'') (Some ''ENOENT''))
   \<and> \<not> flag (deleteIfNotExist (sample_opts\<lparr>files := Some [''b.txt'']\<rparr>))
   \<and> createTreeFile sample_world (sample_opts\<lparr>files := Some [''b.txt'']\<rparr>) ''b.txt''
       = ([EStat ''b.txt''],
          Inl (Obj (Some ''ENOENT: no such file or directory, b.txt'') (Some ''ENOENT'')))
   \<and> createDeletedTreeFile sample_world (sample_opts\<lparr>files := Some [''b.txt'']\<rparr>) ''b.txt''
       = ([EStat ''b.txt''],
          Inl (Obj (Some ''ENOENT: no such file or directory, b.txt'') (Some ''ENOENT'')))
   \<and> \<not> flag (empty (sample_opts\<lparr>files := Some [''b.txt'']\<rparr>))
   \<and> ''b.txt'' \<in> set (orEmptyList (files (sample_opts\<lparr>files := Some [''b.txt'']\<rparr>)))
   \<and> (\<exists>e. snd (getTreeSHA sample_world (sample_opts\<lparr>files := Some [''b.txt'']\<rparr>)
                  \<lparr>oid = ''c0'', tree_oid = ''t0''\<rparr>) = Inl e)
   \<and> flag (deleteIfNotExist (sample_opts\<lparr>deletedFiles := Some [''b.txt''],
                                           deleteIfNotExist := Some True\<rparr>))
   \<and> createTreeFile sample_world
         (sample_opts\<lparr>deletedFiles := Some [''b.txt''], deleteIfNotExist := Some True\<rparr>) ''b.txt''
       = ([EStat ''b.txt''],
          Inr \<lparr>f_path = ''b.txt'', f_content = None, f_sha = ShaNull,
               f_mode = M100644, f_type = Some Blob\<rparr>)
   \<and> createDeletedTreeFile sample_world
         (sample_opts\<lparr>deletedFiles := Some [''b.txt''], deleteIfNotExist := Some True\<rparr>) ''b.txt''
       = ([EStat ''b.txt''],
          Inr \<lparr>f_path = ''b.txt'', f_content = None, f_sha = ShaNull,
               f_mode = M100644, f_type = Some Blob\<rparr>)
   \<and> forEach (createTreeFile sample_world
                 (sample_opts\<lparr>deletedFiles := Some [''b.txt''], deleteIfNotExist := Some True\<rparr>))
         [''a.txt'']
       = ([EStat ''a.txt'', EReadFile ''a.txt''],
          Inr [\<lparr>f_path = ''a.txt'', f_content = Some ''hello'', f_sha = ShaAbsent,
                f_mode = M100644, f_type = Some Blob\<rparr>])
   \<and> forEach (createDeletedTreeFile sample_world
                 (sample_opts\<lparr>deletedFiles := Some [''b.txt''], deleteIfNotExist := Some True\<rparr>))
         [''b.txt'']
       = ([EStat ''b.txt''],
          Inr [\<lparr>f_path = ''b.txt'', f_content = None, f_sha = ShaNull,
                f_mode = M100644, f_type = Some Blob\<rparr>])
   \<and> \<lparr>f_path = ''b.txt'', f_content = None, f_sha = ShaNull, f_mode = M100644,
        f_type = Some Blob\<rparr>
       \<in> set ([\<lparr>f_path = ''a.txt'', f_content = Some ''hello'', f_sha = ShaAbsent,
                  f_mode = M100644, f_type = Some Blob\<rparr>]
                @ [\<lparr>f_path = ''b.txt'', f_content = None, f_sha = ShaNull,
                     f_mode = M100644, f_type = Some Blob\<rparr>])"
proof -
  let ?f = "sample_opts\<lparr>files := Some [''b.txt'']\<rparr>"
  let ?t = "sample_opts\<lparr>deletedFiles := Some [''b.txt''], deleteIfNotExist := Some True\<rparr>"
  let ?b = "\<lparr>oid = ''c0'', tree_oid = ''t0''\<rparr>"
  let ?a = "\<lparr>f_path = ''a.txt'', f_content = Some ''hello'', f_sha = ShaAbsent,
             f_mode = M100644, f_type = Some Blob\<rparr>"
  let ?d = "\<lparr>f_path = ''b.txt'', f_content = None, f_sha = ShaNull,
             f_mode = M100644, f_type = Some Blob\<rparr>"
  have h: "fs_stat sample_world (path_join sample_world (orEmptyString (rootDir sample_opts)) ''b.txt'')
     = Inl (Obj (Some ''ENOENT: no such file or directory, b.txt'') (Some ''ENOENT''))"
    by (simp add: sample_world_def sample_opts_def orEmptyString_def enoent_def)
  have h1: "fs_stat sample_world (path_join sample_world (orEmptyString (rootDir ?f)) ''b.txt'')
     = Inl (Obj (Some ''ENOENT: no such file or directory, b.txt'') (Some ''ENOENT''))"
    using h by simp
  have h2: "fs_stat sample_world (path_join sample_world (orEmptyString (rootDir ?t)) ''b.txt'')
     = Inl (Obj (Some ''ENOENT: no such file or directory, b.txt'') (Some ''ENOENT''))"
    using h by simp
  have p: "path_join sample_world (orEmptyString (rootDir sample_opts)) ''b.txt'' = ''b.txt''"
    by (simp add: sample_world_def sample_opts_def orEmptyString_def)
  have a: "forEach (createTreeFile sample_world ?t) (orEmptyList (files ?t))
       = ([EStat ''a.txt'', EReadFile ''a.txt''], Inr [?a])"
    by (simp add: eval_defs io_simps sample_world_def sample_opts_def)
  have d: "forEach (createDeletedTreeFile sample_world ?t) (orEmptyList (deletedFiles ?t))
       = ([EStat ''b.txt''], Inr [?d])"
    by (simp add: eval_defs io_simps sample_world_def sample_opts_def enoent_def)
  from missing_path_policy [OF h1, of ?b]
       missing_path_policy [OF h2, of ?b "[EStat ''a.txt'', EReadFile ''a.txt'']" "[?a]"
         "[EStat ''b.txt'']" "[?d]"] h p a d
  show ?thesis
    by (simp add: flag_def orEmptyList_def sample_opts_def)
qed

subsection \<open>The tree sent to the remote\<close>

lemma createTreeFile_path:
  "createTreeFile w opts x = (l, Inr y) \<Longrightarrow> f_path y = x"
  by (cases "getFileContentAndMode w (path_join w (orEmptyString (rootDir opts)) x)
               (flag (deleteIfNotExist opts))" rule: prod.exhaust [case_names Pair])
     (auto simp: createTreeFile_def bind_def ret_def split: sum.splits)

lemma createDeletedTreeFile_path:
  "createDeletedTreeFile w opts x = (l, Inr y) \<Longrightarrow> f_path y = x"
  by (auto simp: createDeletedTreeFile_def bind_def ret_def split: sum.splits prod.splits)

lemma forEach_paths:
  assumes "\<And>x l y. f x = (l, Inr y) \<Longrightarrow> f_path y = x"
  shows "forEach f xs = (l, Inr ys) \<Longrightarrow> map f_path ys = xs"
proof (induction xs arbitrary: l ys)
  case Nil
  then show ?case by (simp add: ret_def)
next
  case (Cons a xs)
  then show ?case
    by (auto simp: bind_def ret_def split: sum.splits prod.splits dest: assms)
qed

lemma fold_applyEntry_other:
  "p \<notin> f_path ` set es \<Longrightarrow> fold applyEntry es t p = t p"
  by (induction es arbitrary: t) (auto simp: applyEntry_def)

lemma getTreeSHA_steps:
  assumes "\<not> flag (empty opts)"
    and "forEach (createTreeFile w opts) (orEmptyList (files opts)) = (la, Inr added)"
    and "forEach (createDeletedTreeFile w opts) (orEmptyList (deletedFiles opts)) = (ld, Inr deleted)"
  shows "getTreeSHA w opts base =
           (la @ ld @ [ECreateTree (owner opts) (repo opts) (added @ deleted)
                         (if flag (noParent opts) then None else Some (tree_oid base))],
            git_createTree w (owner opts) (repo opts) (added @ deleted)
              (if flag (noParent opts) then None else Some (tree_oid base)))"
  using assms by (simp add: getTreeSHA_def io_simps Let_def createTree_call_def)

text \<open>
  C9. When the commit is not empty and every entry is built, \<open>createTree\<close> is called
  once, with the additions followed by the deletions; \<open>base_tree\<close> is omitted when
  \<open>noParent\<close> is set and is the tree of the base otherwise. In the tree the remote then
  builds, a path the request does not list is absent under \<open>noParent\<close> and is what the
  base tree has otherwise.
\<close>

theorem base_tree_omitted_iff_noParent:
  assumes "\<not> flag (empty opts)"
    and "forEach (createTreeFile w opts) (orEmptyList (files opts)) = (la, Inr added)"
    and "forEach (createDeletedTreeFile w opts) (orEmptyList (deletedFiles opts)) = (ld, Inr deleted)"
  shows "getTreeSHA w opts base =
           (la @ ld @ [ECreateTree (owner opts) (repo opts) (added @ deleted)
                         (if flag (noParent opts) then None else Some (tree_oid base))],
            git_createTree w (owner opts) (repo opts) (added @ deleted)
              (if flag (noParent opts) then None else Some (tree_oid base)))
     \<and> (\<forall>p. p \<notin> set (orEmptyList (files opts)) \<union> set (orEmptyList (deletedFiles opts)) \<longrightarrow>
            remoteTree store (added @ deleted)
              (if flag (noParent opts) then None else Some (tree_oid base)) p
            = (if flag (noParent opts) then None else store (tree_oid base) p))"
proof -
  have "map f_path added = orEmptyList (files opts)"
    using forEach_paths [OF createTreeFile_path assms(2)] by simp
  moreover have "map f_path deleted = orEmptyList (deletedFiles opts)"
    using forEach_paths [OF createDeletedTreeFile_path assms(3)] by simp
  ultimately have paths: "f_path ` set (added @ deleted)
      = set (orEmptyList (files opts)) \<union> set (orEmptyList (deletedFiles opts))"
    by (metis image_set map_append set_append)
  show ?thesis
    using getTreeSHA_steps [OF assms] paths
    by (auto simp: remoteTree_def fold_applyEntry_other simp del: fold_append)
qed

theorem base_tree_omitted_iff_noParent_witness:
  "\<not> flag (empty (sample_opts\<lparr>noParent := Some True\<rparr>))
   \<and> forEach (createTreeFile sample_world (sample_opts\<lparr>noParent := Some True\<rparr>))
         (orEmptyList (files (sample_opts\<lparr>noParent := Some True\<rparr>)))
       = ([EStat ''a.txt'', EReadFile ''a.txt''],
          Inr [\<lparr>f_path = ''a.txt'', f_content = Some ''hello'', f_sha = ShaAbsent,
                f_mode = M100644, f_type = Some Blob\<rparr>])
   \<and> forEach (createDeletedTreeFile sample_world (sample_opts\<lparr>noParent := Some True\<rparr>))
         (orEmptyList (deletedFiles (sample_opts\<lparr>noParent := Some True\<rparr>)))
       = ([], Inr [])
   \<and> getTreeSHA sample_world (sample_opts\<lparr>noParent := Some True\<rparr>)
         \<lparr>oid = ''c0'', tree_oid = ''t0''\<rparr>
       = ([EStat ''a.txt'', EReadFile ''a.txt'',
           ECreateTree ''o'' ''r''
             [\<lparr>f_path = ''a.txt'', f_content = Some ''hello'', f_sha = ShaAbsent,
               f_mode = M100644, f_type = Some Blob\<rparr>] None],
          Inr ''t1'')
   \<and> sample_store ''t0'' ''old.txt'' \<noteq> None
   \<and> ''old.txt'' \<notin> set [''a.txt'']
   \<and> remoteTree sample_store
         [\<lparr>f_path = ''a.txt'', f_content = Some ''hello'', f_sha = ShaAbsent,
           f_mode = M100644, f_type = Some Blob\<rparr>] None ''old.txt'' = None
   \<and> \<not> flag (empty sample_opts) \<and> \<not> flag (noParent sample_opts)
   \<and> getTreeSHA sample_world sample_opts \<lparr>oid = ''c0'', tree_oid = ''t0''\<rparr>
       = ([EStat ''a.txt'', EReadFile ''a.txt'',
           ECreateTree ''o'' ''r''
             [\<lparr>f_path = ''a.txt'', f_content = Some ''hello'', f_sha = ShaAbsent,
               f_mode = M100644, f_type = Some Blob\<rparr>] (Some ''t0'')],
          Inr ''t1'')
   \<and> remoteTree sample_store
         [\<lparr>f_path = ''a.txt'', f_content = Some ''hello'', f_sha = ShaAbsent,
           f_mode = M100644, f_type = Some Blob\<rparr>] (Some ''t0'') ''old.txt''
       = sample_store ''t0'' ''old.txt''"
proof -
  let ?n = "sample_opts\<lparr>noParent := Some True\<rparr>"
  let ?e = "\<lparr>f_path = ''a.txt'', f_content = Some ''hello'', f_sha = ShaAbsent,
             f_mode = M100644, f_type = Some Blob\<rparr>"
  let ?b = "\<lparr>oid = ''c0'', tree_oid = ''t0''\<rparr>"
  have n1: "\<not> flag (empty ?n)" and s1: "\<not> flag (empty sample_opts)"
    by (simp_all add: sample_opts_def flag_def)
  have n2: "forEach (createTreeFile sample_world ?n) (orEmptyList (files ?n))
       = ([EStat ''a.txt'', EReadFile ''a.txt''], Inr [?e])"
    by (simp add: eval_defs io_simps sample_world_def sample_opts_def)
  have s2: "forEach (createTreeFile sample_world sample_opts) (orEmptyList (files sample_opts))
       = ([EStat ''a.txt'', EReadFile ''a.txt''], Inr [?e])"
    by (simp add: eval_defs io_simps sample_world_def sample_opts_def)
  have n3: "forEach (createDeletedTreeFile sample_world ?n) (orEmptyList (deletedFiles ?n))
       = ([], Inr [])"
    by (simp add: eval_defs sample_opts_def)
  have s3: "forEach (createDeletedTreeFile sample_world sample_opts)
         (orEmptyList (deletedFiles sample_opts)) = ([], Inr [])"
    by (simp add: eval_defs sample_opts_def)
  have st: "sample_store ''t0'' ''old.txt'' \<noteq> None"
    by (simp add: sample_store_def)
  from base_tree_omitted_iff_noParent [OF n1 n2 n3, of ?b sample_store]
       base_tree_omitted_iff_noParent [OF s1 s2 s3, of ?b sample_store]
       n1 s1 n2 n3 st
  show ?thesis
    by (simp add: sample_opts_def flag_def orEmptyList_def sample_world_sel)
qed

subsection \<open>The HEAD of a submodule\<close>

lemma scanPackedRefs_log: "fst (scanPackedRefs rf lines) = []"
  by (induction lines) (auto simp: throw_def ret_def split: list.splits)

lemma resolveGitHEAD_detached:
  assumes "fs_readFile w (path_join w gitDir ''HEAD'') = Inr raw"
    and "\<not> startsWith (trim raw) ''ref: ''"
  shows "resolveGitHEAD w gitDir = ([EReadFile (path_join w gitDir ''HEAD'')], Inr (trim raw))"
  using assms by (simp add: resolveGitHEAD_def readFile_def io_simps Let_def ret_def)

lemma resolveGitHEAD_loose:
  assumes "fs_readFile w (path_join w gitDir ''HEAD'') = Inr raw"
    and "startsWith (trim raw) ''ref: ''"
    and "fs_readFile w (path_join w gitDir (drop (length ''ref: '') (trim raw))) = Inr v"
  shows "resolveGitHEAD w gitDir =
           ([EReadFile (path_join w gitDir ''HEAD''),
             EReadFile (path_join w gitDir (drop (length ''ref: '') (trim raw)))], Inr (trim v))"
  using assms by (simp add: resolveGitHEAD_def readFile_def io_simps Let_def ret_def)

lemma resolveGitHEAD_fallback:
  assumes "fs_readFile w (path_join w gitDir ''HEAD'') = Inr raw"
    and "startsWith (trim raw) ''ref: ''"
    and "fs_readFile w (path_join w gitDir (drop (length ''ref: '') (trim raw))) = Inl e"
  shows "resolveGitHEAD w gitDir =
           ([EReadFile (path_join w gitDir ''HEAD''),
             EReadFile (path_join w gitDir (drop (length ''ref: '') (trim raw))),
             EReadFile (path_join w gitDir ''packed-refs'')],
            (case fs_readFile w (path_join w gitDir ''packed-refs'') of
               Inl e' \<Rightarrow> Inl e'
             | Inr content \<Rightarrow> snd (scanPackedRefs (drop (length ''ref: '') (trim raw)) (split_chr (CHR 0x0A) content))))"
  using assms scanPackedRefs_log
  by (auto simp add: resolveGitHEAD_def resolvePackedRef_def readFile_def io_simps Let_def ret_def
        split: sum.splits)

lemma scanPackedRefs_error_names_ref:
  "snd (scanPackedRefs rf lines) = Inl e \<Longrightarrow> e = newError (''ref '' @ rf @ '' not found in packed-refs'')"
  by (induction lines) (auto simp: throw_def ret_def split: list.splits if_splits)

lemma scanPackedRefs_result_is_named:
  "snd (scanPackedRefs rf lines) = Inr sha \<Longrightarrow>
     \<exists>line \<in> set lines. \<not> startsWith line ''#'' \<and> trim line \<noteq> []
        \<and> (\<exists>rest. split_limit (CHR '' '') 2 line = sha # rf # rest)"
  by (induction lines) (auto simp: throw_def ret_def split: list.splits if_splits)

lemma resolveGitHEAD_loose_wins:
  "resolveGitHEAD loose_ref_world ''g''
     = ([EReadFile ''g/HEAD'', EReadFile ''g/refs/heads/main''], Inr ''2222'')"
  by (simp add: resolveGitHEAD_def loose_ref_world_def sample_world_def readFile_def io_simps
        Let_def trim_def isWhiteSpace_def startsWith_def ret_def)

lemma resolveGitHEAD_packed:
  "resolveGitHEAD packed_ref_world ''g''
     = ([EReadFile ''g/HEAD'', EReadFile ''g/refs/heads/main'', EReadFile ''g/packed-refs''],
        Inr ''1111'')"
  by (simp add: resolveGitHEAD_def packed_ref_world_def sample_world_def readFile_def io_simps
        Let_def trim_def isWhiteSpace_def startsWith_def resolvePackedRef_def ret_def throw_def
        enoent_def split_limit_def)

text \<open>
  C4. A detached \<open>HEAD\<close> is returned trimmed, a readable loose ref is returned
  without a read of \<open>packed-refs\<close>, and a scan of \<open>packed-refs\<close> returns the first
  field of a line whose second field is the ref, or fails with an error that names
  the ref (the lemmas above). But \<open>packed-refs\<close> is scanned whenever the read of the
  loose ref file fails, not only when the file is absent: here the loose ref file
  exists and cannot be read (\<open>EACCES\<close>), and the result is the entry \<open>1111\<close> of
  \<open>packed-refs\<close> instead of the error.
\<close>

theorem unreadable_loose_ref_falls_back_to_packed:
  "fs_readFile unreadable_ref_world ''g/refs/heads/main''
     = Inl (Obj (Some ''EACCES: permission denied, open g/refs/heads/main'') (Some ''EACCES''))
   \<and> resolveGitHEAD unreadable_ref_world ''g''
     = ([EReadFile ''g/HEAD'', EReadFile ''g/refs/heads/main'', EReadFile ''g/packed-refs''],
        Inr ''1111'')"
  by (simp add: resolveGitHEAD_def unreadable_ref_world_def sample_world_def readFile_def io_simps
        Let_def trim_def isWhiteSpace_def startsWith_def resolvePackedRef_def ret_def throw_def
        enoent_def split_limit_def)

subsection \<open>Parents of the commit\<close>

lemma createCommit_parents:
  assumes "hasLength (files opts) \<or> hasLength (deletedFiles opts) \<or> flag (empty opts)"
    and "validateOptions opts = ([], Inr ())"
    and "getBaseBranch w opts = (l1, Inr base)"
    and "getTreeSHA w opts base = (l2, Inr t)"
  shows "\<exists>rest. fst (createCommit w opts) =
           l1 @ l2 @ ECreateCommit (owner opts) (repo opts) (message opts) t
                       (if flag (noParent opts) then None else Some [oid base]) # rest"
  unfolding createCommit_steps [OF assms]
  by (cases "git_createCommit w (owner opts) (repo opts) (message opts) t
               (if flag (noParent opts) then None else Some [oid base])")
     (simp_all add: io_simps)

lemma commit_main_noParent_unused: "commit w (opts\<lparr>noParent_m := x\<rparr>) = commit w opts"
  by (simp add: commit_def getBaseBranch_main_def getDefaultBranch_main_def cong: if_cong)

text \<open>
  C6. In the current source the commit has no parent when \<open>noParent\<close> is set and
  the commit of the base as its one parent otherwise (the lemma on \<open>createCommit\<close>
  above). \<open>commit\<close> of \<open>main.ts\<close> never reads \<open>noParent\<close>: for the request
  below, which sets it, the commit is created with the parent \<open>c0\<close>.
\<close>

theorem main_commit_ignores_noParent:
  "flag (noParent_m sample_opts_main)
   \<and> commit sample_world sample_opts_main
     = ([EGetBranch ''o'' ''r'' ''main'',
         ECreateCommit ''o'' ''r'' ''m'' ''t0'' (Some [''c0'']),
         EUpdateRef ''o'' ''r'' ''heads/main'' ''c1'' None],
        Inr (Some \<lparr>commit_sha = ''c1''\<rparr>))"
  by (simp add: commit_def sample_opts_main_def sample_world_def hasLength_def flag_def truthy_def
        io_simps ret_def throw_def getBaseBranch_main_def getBranch_main_def truthy_opt_def
        createCommit_call_def updateRef_call_def)

subsection \<open>File modes\<close>

lemma getFileMode_mapping:
  "getFileMode m =
     (if m AND 61440 = 32768 then (if m AND 73 \<noteq> 0 then M100755 else M100644)
      else if m AND 61440 = 16384 then M040000
      else if m AND 61440 = 57344 then M160000
      else if m AND 61440 = 40960 then M120000
      else M100644)"
  by (simp add: getFileMode_def Let_def and.assoc)

lemma getFileMode_main_never_executable: "getFileMode_main m \<noteq> M100755"
proof -
  have "m AND 61440 \<noteq> 33261"
  proof
    assume a: "m AND 61440 = 33261"
    have "(m AND 61440) AND 61440 = m AND 61440"
      by (simp add: and.assoc)
    with a have "(33261::nat) AND 61440 = 33261" by simp
    then show False by simp
  qed
  then show ?thesis by (simp add: getFileMode_main_def Let_def)
qed

text \<open>
  C7. \<open>getFileMode\<close> of the current source maps a regular file to \<open>100755\<close> when an
  execute bit is set and to \<open>100644\<close> otherwise, a directory to \<open>040000\<close>, a gitlink to
  \<open>160000\<close>, a symlink to \<open>120000\<close> and anything else to \<open>100644\<close> (the first lemma
  above). \<open>getFileMode\<close> of \<open>main.ts\<close> never answers \<open>100755\<close>: the stat mode
  \<open>0o100755 = 33261\<close> of an executable regular file is mapped to \<open>100644\<close>.
\<close>

theorem main_getFileMode_executable_is_regular:
  "(33261::nat) AND 61440 = 32768 \<and> (33261::nat) AND 73 \<noteq> 0
   \<and> getFileMode_main 33261 = M100644"
  by (simp add: getFileMode_main_def Let_def)

end
